(* ===== verification/Go_Prelude.thy ===== *)
theory Go_Prelude
  imports Main
begin

text \<open>
  Shared vocabulary of the development: the character constants the templates print,
  the ASCII case mapping of Go's \<open>strings.ToLower\<close>, the separator construct of
  \<open>text/template\<close> ranges (\<open>{{ if $idx }}, {{ end }}\<close>), and the generic list
  lemmas the component theories use. The collection \<open>gen_simps\<close> gathers the
  evaluation rules of the model so that witnesses evaluate by \<open>simp add: gen_simps\<close>.
\<close>

named_theorems gen_simps "evaluation rules of the generator model"

type_synonym ident = string
type_synonym out_text = string

subsection \<open>Characters printed by the templates\<close>

abbreviation NL :: string where "NL \<equiv> [CHR 0x0A]"
abbreviation TB :: string where "TB \<equiv> [CHR 0x09]"
abbreviation BSL :: string where "BSL \<equiv> [CHR 0x5C]"
abbreviation DQ :: string where "DQ \<equiv> [CHR 0x22]"

subsection \<open>ASCII case mapping\<close>

text \<open>
  \<open>strings.ToLower\<close> maps \<open>A\<close>..\<open>Z\<close> to \<open>a\<close>..\<open>z\<close> and leaves every other ASCII
  byte alone. Characters here are bytes; Go lowers non-ASCII runes by Unicode tables,
  which this model does not cover (identifiers in the scanned code are taken to be ASCII).
\<close>

definition lower_table :: "(char \<times> char) list" where
  "lower_table = zip ''ABCDEFGHIJKLMNOPQRSTUVWXYZ'' ''abcdefghijklmnopqrstuvwxyz''"

definition lower_char :: "char \<Rightarrow> char" where
  "lower_char c = (case map_of lower_table c of Some l \<Rightarrow> l | None \<Rightarrow> c)"

definition to_lower :: "string \<Rightarrow> string" where
  "to_lower s = map lower_char s"

lemma lower_char_upper_only:
  assumes "lower_char c \<noteq> c"
  shows "c \<in> set ''ABCDEFGHIJKLMNOPQRSTUVWXYZ''"
proof -
  from assms obtain l where "map_of lower_table c = Some l"
    by (auto simp: lower_char_def split: option.splits)
  then have "(c, l) \<in> set lower_table" by (rule map_of_SomeD)
  then show ?thesis unfolding lower_table_def by (rule set_zip_leftD)
qed

lemma length_to_lower [simp]: "length (to_lower s) = length s"
  by (simp add: to_lower_def)

lemma to_lower_Nil [simp]: "to_lower [] = []"
  by (simp add: to_lower_def)

lemma to_lower_no_upper:
  "set s \<inter> set ''ABCDEFGHIJKLMNOPQRSTUVWXYZ'' = {} \<Longrightarrow> to_lower s = s"
  unfolding to_lower_def
  by (rule map_idI) (use lower_char_upper_only in blast)

declare to_lower_def [gen_simps] lower_char_def [gen_simps] lower_table_def [gen_simps]

subsection \<open>Comma-separated ranges\<close>

text \<open>
  The call line of both templates prints a list through
  \<open>{{ range $idx, $ret := xs }}{{ if $idx }}, {{ end }}pre{{ $ret.Name }}{{ end }}\<close>:
  every element is prefixed with \<open>pre\<close>, and all but the first are preceded by
  \<open>", "\<close>.
\<close>

fun comma_range :: "string \<Rightarrow> string list \<Rightarrow> string" where
  "comma_range pre [] = []"
| "comma_range pre (n # ns) = pre @ n @ concat (map (\<lambda>m. '', '' @ pre @ m) ns)"

lemma comma_range_append_single:
  "comma_range pre (ns @ [m]) =
     (if ns = [] then pre @ m else comma_range pre ns @ '', '' @ pre @ m)"
  by (cases ns) simp_all

lemma comma_range_Nil_iff [simp]: "comma_range pre ns = [] \<longleftrightarrow> ns = [] \<or> (pre = [] \<and> ns = [[]])"
  by (cases ns) auto

subsection \<open>Suffixes\<close>

text \<open>\<open>strings.HasSuffix\<close>.\<close>

definition has_suffix :: "string \<Rightarrow> string \<Rightarrow> bool" where
  "has_suffix s suf \<longleftrightarrow> length suf \<le> length s \<and> drop (length s - length suf) s = suf"

declare has_suffix_def [gen_simps]

lemma has_suffix_append [simp]: "has_suffix (s @ suf) suf"
  by (simp add: has_suffix_def)

subsection \<open>How a Go process stops early\<close>

text \<open>
  A run-time panic (\<open>runtime error: index out of range [i] with length n\<close>, a failed
  type assertion, a nil pointer dereference) ends the process with status 2; \<open>os.Exit\<close>
  ends it with the status given. Either way nothing after it runs and deferred calls are
  skipped.
\<close>

datatype runtime_panic = IndexOutOfRange nat nat | BadTypeAssertion | NilDereference

datatype halt = ExitStatus nat | Panicked runtime_panic

subsection \<open>Lists\<close>

text \<open>Two positions \<open>i < j\<close> of a list split it around both elements.\<close>

lemma split_list_two_nth:
  assumes "i < j" and "j < length xs"
  shows "xs = take i xs @ xs ! i # drop (Suc i) (take j xs) @ xs ! j # drop (Suc j) xs"
proof -
  have "xs = take j xs @ xs ! j # drop (Suc j) xs"
    using assms(2) by (rule id_take_nth_drop)
  moreover have "take j xs = take i xs @ xs ! i # drop (Suc i) (take j xs)"
    using id_take_nth_drop [of i "take j xs"] assms by simp
  ultimately show ?thesis by (metis append.assoc append_Cons)
qed

end
