(* ===== verification/Go_Ast.thy ===== *)
theory Go_Ast
  imports Go_Prelude
begin

text \<open>
  The part of \<open>go/ast\<close> that \<open>src/main.go\<close> reads: type expressions (the cases
  \<open>typename\<close> distinguishes and the other shapes a Go type can take), fields and field
  lists, function declarations, scope objects, files and packages. Also two library
  functions the program calls: \<open>(*ast.FieldList).NumFields\<close> and the rule by which
  \<open>go/parser\<close> fills a file's scope (\<open>resolve_scope\<close>). These two model the Go
  library, not code of the repository; they fix what the driver can be handed.
\<close>

subsection \<open>Type expressions\<close>

text \<open>
  One constructor per dynamic type of \<open>ast.Expr\<close> that can stand in a type position.
  Only \<open>Ident\<close>, \<open>SelectorExpr\<close> and \<open>StarExpr\<close> are looked into by the
  program; the others carry what the parser stores where it matters for the shape.
\<close>

datatype expr =
    Ident ident
  | SelectorExpr expr ident
  | StarExpr expr
  | ArrayType "expr option" expr
  | MapType expr expr
  | ChanType expr
  | FuncTypeExpr
  | InterfaceType
  | StructType
  | Ellipsis expr
  | ParenExpr expr
  | IndexExpr expr expr
  | IndexListExpr expr "expr list"
  | BadExpr

text \<open>The text \<open>fmt.Printf("%T", t)\<close> prints for each dynamic type.\<close>

fun go_type_name :: "expr \<Rightarrow> string" where
  "go_type_name (Ident _) = ''*ast.Ident''"
| "go_type_name (SelectorExpr _ _) = ''*ast.SelectorExpr''"
| "go_type_name (StarExpr _) = ''*ast.StarExpr''"
| "go_type_name (ArrayType _ _) = ''*ast.ArrayType''"
| "go_type_name (MapType _ _) = ''*ast.MapType''"
| "go_type_name (ChanType _) = ''*ast.ChanType''"
| "go_type_name FuncTypeExpr = ''*ast.FuncType''"
| "go_type_name InterfaceType = ''*ast.InterfaceType''"
| "go_type_name StructType = ''*ast.StructType''"
| "go_type_name (Ellipsis _) = ''*ast.Ellipsis''"
| "go_type_name (ParenExpr _) = ''*ast.ParenExpr''"
| "go_type_name (IndexExpr _ _) = ''*ast.IndexExpr''"
| "go_type_name (IndexListExpr _ _) = ''*ast.IndexListExpr''"
| "go_type_name BadExpr = ''*ast.BadExpr''"

subsection \<open>Fields, signatures, declarations\<close>

text \<open>
  \<open>ast.Field\<close>: the names of a group (\<open>a, b int\<close> has two, an unnamed parameter or
  result has none; the parser leaves \<open>Names\<close> nil then) and the shared type.
\<close>

record field =
  field_names :: "ident list"
  field_type :: expr

text \<open>
  \<open>ast.FuncType\<close>: \<open>Params\<close> is always present for a declaration; \<open>Results\<close> is
  nil when the function declares no result, hence the option.
\<close>

record func_type =
  ft_params :: "field list"
  ft_results :: "field list option"

text \<open>\<open>ast.FuncDecl\<close>: the receiver list is nil for a plain function.\<close>

record func_decl =
  fd_recv :: "field list option"
  fd_name :: ident
  fd_type :: func_type

text \<open>\<open>(*ast.FieldList).NumFields\<close>: an unnamed field counts once; nil counts zero.\<close>

definition num_fields :: "field list \<Rightarrow> nat" where
  "num_fields fs = sum_list (map (\<lambda>g. max 1 (length (field_names g))) fs)"

definition num_fields_opt :: "field list option \<Rightarrow> nat" where
  "num_fields_opt fl = (case fl of None \<Rightarrow> 0 | Some fs \<Rightarrow> num_fields fs)"

lemma num_fields_Nil [simp]: "num_fields [] = 0"
  and num_fields_Cons [simp]:
    "num_fields (g # fs) = max 1 (length (field_names g)) + num_fields fs"
  by (simp_all add: num_fields_def)

lemma num_fields_zero_iff [simp]: "num_fields fs = 0 \<longleftrightarrow> fs = []"
  by (cases fs) auto

lemma num_fields_opt_zero_iff [simp]:
  "num_fields_opt fl = 0 \<longleftrightarrow> fl = None \<or> fl = Some []"
  by (cases fl) (auto simp: num_fields_opt_def)

subsection \<open>Scope objects, files, packages\<close>

datatype objkind = Bad | Pkg | Con | Typ | Var | Fun | Lbl

text \<open>
  \<open>obj.Decl\<close> is an \<open>interface{}\<close>; for the assertion \<open>obj.Decl.(*ast.FuncDecl)\<close>
  only whether it is a function declaration matters.
\<close>

datatype decl_node = FuncDeclNode func_decl | OtherDeclNode

record object =
  obj_kind :: objkind
  obj_name :: ident
  obj_decl :: decl_node
  obj_pos_valid :: bool

text \<open>
  \<open>file.Scope.Objects\<close> and \<open>pkg.Files\<close> are Go maps, iterated in an unspecified
  order: a list stands for one iteration order, and the theorems hold for every list.
\<close>

record go_file =
  file_name :: string
  file_objects :: "object list"

record package =
  pkg_name :: ident
  pkg_files :: "go_file list"

subsection \<open>How go/parser fills a file scope\<close>

text \<open>
  The declarations of a file as the resolver of \<open>go/parser\<close> sees them: a function
  declaration, or a \<open>const\<close>/\<open>var\<close>/\<open>type\<close> spec declaring some names. The
  resolver declares a function in the package scope only when it has no receiver and is
  not named \<open>init\<close>; no name \<open>_\<close> is inserted; \<open>Scope.Insert\<close> keeps an existing
  object of the same name.
\<close>

datatype top_decl = FuncTop func_decl | SpecTop objkind "ident list"

definition scope_insert :: "object list \<Rightarrow> object \<Rightarrow> object list" where
  "scope_insert os ob =
     (if obj_name ob = ''_'' \<or> obj_name ob \<in> set (map obj_name os) then os else os @ [ob])"

fun declare_top :: "object list \<Rightarrow> top_decl \<Rightarrow> object list" where
  "declare_top os (FuncTop d) =
     (if fd_recv d = None \<and> fd_name d \<noteq> ''init''
      then scope_insert os \<lparr>obj_kind = Fun, obj_name = fd_name d,
                            obj_decl = FuncDeclNode d, obj_pos_valid = True\<rparr>
      else os)"
| "declare_top os (SpecTop k ns) =
     foldl (\<lambda>os' n. scope_insert os' \<lparr>obj_kind = k, obj_name = n,
                                      obj_decl = OtherDeclNode, obj_pos_valid = True\<rparr>) os ns"

definition resolve_scope :: "top_decl list \<Rightarrow> object list" where
  "resolve_scope ds = foldl declare_top [] ds"

text \<open>
  What every scope the parser builds satisfies: names are unique, and a \<open>Fun\<close>
  object's declaration is a receiver-less \<open>FuncDecl\<close> of the same name. Spec objects
  are never of kind \<open>Fun\<close> (the parser declares specs as \<open>Con\<close>, \<open>Var\<close> or
  \<open>Typ\<close>).
\<close>

definition fun_obj_ok :: "object \<Rightarrow> bool" where
  "fun_obj_ok ob \<longleftrightarrow>
     (obj_kind ob = Fun \<longrightarrow>
        (case obj_decl ob of
           FuncDeclNode d \<Rightarrow> fd_recv d = None \<and> fd_name d = obj_name ob
         | OtherDeclNode \<Rightarrow> False))"

definition scope_wf :: "object list \<Rightarrow> bool" where
  "scope_wf os \<longleftrightarrow> distinct (map obj_name os) \<and> list_all fun_obj_ok os"

definition spec_kind_ok :: "top_decl \<Rightarrow> bool" where
  "spec_kind_ok d = (case d of SpecTop k _ \<Rightarrow> k \<in> {Con, Var, Typ} | FuncTop _ \<Rightarrow> True)"

subsection \<open>Which files ParseDir reads\<close>

text \<open>
  \<open>parser.ParseDir(fset, dir, filter, mode)\<close> parses the entries whose name ends in
  \<open>.go\<close> and that the filter keeps (library behaviour).
\<close>

definition parse_dir :: "(string \<Rightarrow> bool) \<Rightarrow> go_file list \<Rightarrow> go_file list" where
  "parse_dir keep fs = filter (\<lambda>f. has_suffix (file_name f) ''.go'' \<and> keep (file_name f)) fs"


lemma scope_wf_Nil [simp]: "scope_wf []"
  by (simp add: scope_wf_def)

lemma scope_insert_wf:
  "scope_wf os \<Longrightarrow> fun_obj_ok ob \<Longrightarrow> scope_wf (scope_insert os ob)"
  by (auto simp: scope_wf_def scope_insert_def)

lemma set_scope_insert: "set (scope_insert os ob) \<subseteq> insert ob (set os)"
  by (auto simp: scope_insert_def)

lemma spec_objects_fun_ok:
  "k \<in> {Con, Var, Typ} \<Longrightarrow>
   fun_obj_ok \<lparr>obj_kind = k, obj_name = n, obj_decl = OtherDeclNode, obj_pos_valid = v\<rparr>"
  by (auto simp: fun_obj_ok_def)

lemma foldl_scope_insert_wf:
  assumes "scope_wf os" and "\<And>n. n \<in> set ns \<Longrightarrow> fun_obj_ok (mk n)"
  shows "scope_wf (foldl (\<lambda>os' n. scope_insert os' (mk n)) os ns)"
  using assms
proof (induction ns arbitrary: os)
  case Nil
  then show ?case by simp
next
  case (Cons n ns)
  from Cons.prems have "scope_wf (scope_insert os (mk n))"
    by (simp add: scope_insert_wf)
  with Cons.prems show ?case by (simp add: Cons.IH)
qed

lemma declare_top_wf:
  assumes "scope_wf os" and "spec_kind_ok d"
  shows "scope_wf (declare_top os d)"
proof (cases d)
  case (FuncTop fd)
  have "fun_obj_ok \<lparr>obj_kind = Fun, obj_name = fd_name fd,
                     obj_decl = FuncDeclNode fd, obj_pos_valid = True\<rparr>"
    if "fd_recv fd = None"
    using that by (simp add: fun_obj_ok_def)
  with assms FuncTop show ?thesis by (simp add: scope_insert_wf)
next
  case (SpecTop k ns)
  with assms(2) have "k \<in> {Con, Var, Typ}" by (simp add: spec_kind_ok_def)
  with assms(1) SpecTop show ?thesis
    by (simp add: foldl_scope_insert_wf spec_objects_fun_ok)
qed

lemma foldl_declare_top_wf:
  "scope_wf os \<Longrightarrow> list_all spec_kind_ok ds \<Longrightarrow> scope_wf (foldl declare_top os ds)"
  by (induction ds arbitrary: os) (simp_all add: declare_top_wf)

end
