(* ===== verification/Type_Namer.thy ===== *)
theory Type_Namer
  imports Go_Ast
begin

text \<open>
  The Type Namer, \<open>typename\<close> of \<open>src/main.go\<close>: the display name of a type
  expression, together with the text it prints to standard output. An identifier gives
  its name, a qualified reference \<open>pkg.Name\<close> its selector, a pointer the name of what it
  points to; every other shape prints its dynamic Go type (\<open>%T\<close>) and a newline, and
  gives the empty name.
\<close>

fun typename :: "expr \<Rightarrow> ident \<times> out_text" where
  "typename (Ident n) = (n, [])"
| "typename (SelectorExpr x sel) = (sel, [])"
| "typename (StarExpr x) = typename x"
| "typename t = ([], go_type_name t @ NL)"

text \<open>The shapes the switch of \<open>typename\<close> handles, looking through pointers.\<close>

fun supported_type :: "expr \<Rightarrow> bool" where
  "supported_type (Ident _) = True"
| "supported_type (SelectorExpr _ _) = True"
| "supported_type (StarExpr x) = supported_type x"
| "supported_type _ = False"

text \<open>The expression under all pointer layers.\<close>

fun strip_stars :: "expr \<Rightarrow> expr" where
  "strip_stars (StarExpr x) = strip_stars x"
| "strip_stars t = t"

declare typename.simps [gen_simps] supported_type.simps [gen_simps]

lemma typename_stars [simp]: "typename ((StarExpr ^^ k) e) = typename e"
  by (induction k) simp_all

lemma typename_strip_stars: "typename (strip_stars e) = typename e"
  by (induction e rule: strip_stars.induct) simp_all

lemma supported_strip_stars: "supported_type (strip_stars e) = supported_type e"
  by (induction e rule: strip_stars.induct) simp_all

lemma typename_supported_silent:
  "supported_type e \<Longrightarrow> snd (typename e) = []"
  by (induction e rule: typename.induct) simp_all

lemma typename_unsupported:
  "\<not> supported_type e \<Longrightarrow> typename e = ([], go_type_name (strip_stars e) @ NL)"
  by (induction e rule: typename.induct) simp_all

lemma typename_silent_iff: "snd (typename e) = [] \<longleftrightarrow> supported_type e"
  using typename_supported_silent typename_unsupported by fastforce

subsection \<open>Properties\<close>

text \<open>
  C12: a plain identifier resolves to its name and a package-qualified reference to its
  selector alone, under any number of pointer indirections, and nothing is printed.
\<close>

theorem typename_named_through_pointers:
  "typename ((StarExpr ^^ k) (Ident n)) = (n, []) \<and>
   typename ((StarExpr ^^ k) (SelectorExpr x n)) = (n, [])"
  by simp

text \<open>
  C13: every other type shape (slice, map, function type, generic instantiation, ...,
  also behind pointers) resolves to the empty name and prints its Go AST type and a
  newline on standard output; no error is reported.
\<close>

theorem typename_unsupported_empty:
  assumes "\<not> supported_type e"
  shows "fst (typename e) = [] \<and> snd (typename e) = go_type_name (strip_stars e) @ NL"
  using typename_unsupported [OF assms] by simp

theorem typename_unsupported_empty_witness:
  "\<not> supported_type (StarExpr (ArrayType None (Ident ''int''))) \<and>
   fst (typename (StarExpr (ArrayType None (Ident ''int'')))) = [] \<and>
   snd (typename (StarExpr (ArrayType None (Ident ''int'')))) = ''*ast.ArrayType'' @ NL"
  using typename_unsupported_empty [of "StarExpr (ArrayType None (Ident ''int''))"] by simp

end
