(* ===== verification/Signature.thy ===== *)
theory Signature
  imports Type_Namer
begin

text \<open>
  The Signature Extractor: the types \<open>Param\<close>, \<open>Result\<close>, \<open>Receiver\<close>, \<open>Func\<close>
  and \<open>Method\<close> of \<open>src/main.go\<close> and the loops of \<open>main\<close> that fill them from a
  \<open>FuncDecl\<close> (the parameter loop, the result loop and the receiver literal). Each
  \<open>typename\<close> call may print, so every extractor also returns the text it printed,
  in call order.
\<close>

subsection \<open>Descriptions\<close>

record param =
  param_name :: ident
  param_type :: ident

text \<open>\<open>type Result Param\<close> and \<open>type Receiver Param\<close>: the same fields.\<close>

type_synonym result = param
type_synonym receiver = param

record func =
  func_name :: ident
  func_params :: "param list"
  func_results :: "result list"

record go_method =
  method_name :: ident
  method_rcvr :: receiver
  method_params :: "param list"
  method_results :: "result list"

text \<open>What the driver hands to a template: the \<open>Func\<close> value or the \<open>Method\<close> value.\<close>

datatype description = FuncDesc func | MethodDesc go_method

subsection \<open>The parameter loop\<close>

text \<open>
  \<open>for _, name := range p.Names { ps = append(ps, Param{name.Name, typename(p.Type)}) }\<close>:
  one entry per name, and \<open>typename\<close> is called once per name. A group without names
  adds nothing.
\<close>

fun extract_param_names :: "ident list \<Rightarrow> expr \<Rightarrow> param list \<times> out_text" where
  "extract_param_names [] t = ([], [])"
| "extract_param_names (n # ns) t =
     (let (tn, d) = typename t;
          (ps, d') = extract_param_names ns t
      in (\<lparr>param_name = n, param_type = tn\<rparr> # ps, d @ d'))"

fun extract_params :: "field list \<Rightarrow> param list \<times> out_text" where
  "extract_params [] = ([], [])"
| "extract_params (p # fs) =
     (let (ps, d) = extract_param_names (field_names p) (field_type p);
          (ps', d') = extract_params fs
      in (ps @ ps', d @ d'))"

subsection \<open>The result loop\<close>

text \<open>
  \<open>typename(r.Type)\<close> is called once per group; a group with nil \<open>Names\<close> gives one
  result named by the lower-cased type name, a named group one result per name.
\<close>

fun extract_results :: "field list \<Rightarrow> result list \<times> out_text" where
  "extract_results [] = ([], [])"
| "extract_results (r # fs) =
     (let (tn, d) = typename (field_type r);
          rs = (if field_names r = [] then [\<lparr>param_name = to_lower tn, param_type = tn\<rparr>]
                else map (\<lambda>n. \<lparr>param_name = n, param_type = tn\<rparr>) (field_names r));
          (rs', d') = extract_results fs
      in (rs @ rs', d @ d'))"

subsection \<open>The receiver\<close>

text \<open>
  \<open>Receiver{Name: fn.Recv.List[0].Names[0].Name, Type: typename(fn.Recv.List[0].Type)}\<close>:
  the fields of the literal are evaluated in order, so the index into \<open>Names\<close> panics
  before \<open>typename\<close> runs when the receiver is unnamed (\<open>func (Foo) M()\<close>).
\<close>

definition extract_receiver :: "field list \<Rightarrow> runtime_panic + receiver \<times> out_text" where
  "extract_receiver rl =
     (case rl of
        [] \<Rightarrow> Inl (IndexOutOfRange 0 0)
      | f # _ \<Rightarrow>
          (case field_names f of
             [] \<Rightarrow> Inl (IndexOutOfRange 0 0)
           | n # _ \<Rightarrow> (let (tn, d) = typename (field_type f)
                      in Inr (\<lparr>param_name = n, param_type = tn\<rparr>, d))))"

subsection \<open>The whole extraction of one declaration\<close>

text \<open>
  Lines 228--277 of \<open>main\<close> without the template call: parameters, then results
  (\<open>fn.Type.Results.List\<close> dereferences \<open>Results\<close>, which the guard before has shown
  non-nil), then the description. The printed text is returned even when the receiver
  panics, since it was written before.
\<close>

definition extract_decl :: "func_decl \<Rightarrow> out_text \<times> (runtime_panic + description)" where
  "extract_decl fd =
     (let (ps, d1) = extract_params (ft_params (fd_type fd))
      in case ft_results (fd_type fd) of
           None \<Rightarrow> (d1, Inl NilDereference)
         | Some rfs \<Rightarrow>
             (let (rs, d2) = extract_results rfs
              in case fd_recv fd of
                   None \<Rightarrow> (d1 @ d2, Inr (FuncDesc \<lparr>func_name = fd_name fd,
                                                    func_params = ps, func_results = rs\<rparr>))
                 | Some rl \<Rightarrow>
                     (case extract_receiver rl of
                        Inl p \<Rightarrow> (d1 @ d2, Inl p)
                      | Inr (rc, d3) \<Rightarrow>
                          (d1 @ d2 @ d3, Inr (MethodDesc \<lparr>method_name = fd_name fd,
                              method_rcvr = rc, method_params = ps, method_results = rs\<rparr>)))))"

declare extract_param_names.simps [gen_simps] extract_params.simps [gen_simps]
  extract_results.simps [gen_simps] extract_receiver_def [gen_simps] extract_decl_def [gen_simps]

subsection \<open>Closed forms of the loops\<close>

text \<open>The entries a parameter group contributes, and the text its \<open>typename\<close> calls print.\<close>

definition group_params :: "field \<Rightarrow> param list" where
  "group_params f = map (\<lambda>n. \<lparr>param_name = n, param_type = fst (typename (field_type f))\<rparr>) (field_names f)"

definition group_results :: "field \<Rightarrow> result list" where
  "group_results f =
     (let tn = fst (typename (field_type f))
      in if field_names f = [] then [\<lparr>param_name = to_lower tn, param_type = tn\<rparr>]
         else map (\<lambda>n. \<lparr>param_name = n, param_type = tn\<rparr>) (field_names f))"

lemma extract_param_names_eq:
  "extract_param_names ns t =
     (map (\<lambda>n. \<lparr>param_name = n, param_type = fst (typename t)\<rparr>) ns,
      concat (replicate (length ns) (snd (typename t))))"
  by (induction ns) (simp_all add: split_beta)

lemma extract_params_eq:
  "extract_params fs =
     (concat (map group_params fs),
      concat (map (\<lambda>f. concat (replicate (length (field_names f)) (snd (typename (field_type f))))) fs))"
  by (induction fs) (simp_all add: extract_param_names_eq group_params_def split_beta)

lemma extract_results_eq:
  "extract_results fs = (concat (map group_results fs), concat (map (\<lambda>f. snd (typename (field_type f))) fs))"
  by (induction fs) (simp_all add: group_results_def split_beta Let_def)

lemma length_group_params [simp]: "length (group_params f) = length (field_names f)"
  by (simp add: group_params_def)

lemma length_group_results [simp]: "length (group_results f) = max 1 (length (field_names f))"
  by (cases "field_names f") (simp_all add: group_results_def Let_def)

lemma length_extract_params:
  "length (fst (extract_params fs)) = sum_list (map (\<lambda>f. length (field_names f)) fs)"
  by (simp add: extract_params_eq length_concat comp_def)

lemma sum_names_le_num_fields:
  "sum_list (map (\<lambda>f. length (field_names f)) fs) \<le> num_fields fs"
  by (induction fs) auto

lemma sum_names_eq_num_fields_iff:
  "sum_list (map (\<lambda>f. length (field_names f)) fs) = num_fields fs \<longleftrightarrow>
   (\<forall>f\<in>set fs. field_names f \<noteq> [])"
proof (induction fs)
  case Nil
  then show ?case by simp
next
  case (Cons f fs)
  have "sum_list (map (\<lambda>f. length (field_names f)) fs) \<le> num_fields fs"
    by (rule sum_names_le_num_fields)
  with Cons.IH show ?case by (cases "field_names f") auto
qed

lemma extract_params_silent:
  "\<forall>f\<in>set fs. supported_type (field_type f) \<Longrightarrow> snd (extract_params fs) = []"
  by (simp add: extract_params_eq typename_supported_silent)

lemma extract_results_silent:
  "\<forall>f\<in>set fs. supported_type (field_type f) \<Longrightarrow> snd (extract_results fs) = []"
  by (simp add: extract_results_eq typename_supported_silent)

subsection \<open>Properties\<close>

text \<open>
  C7: the parameter loop flattens grouped declarations into one entry per name, in
  group-then-name order, each with its group's resolved type name.
\<close>

theorem extract_params_order:
  "map (\<lambda>p. (param_name p, param_type p)) (fst (extract_params fs)) =
   concat (map (\<lambda>f. map (\<lambda>n. (n, fst (typename (field_type f)))) (field_names f)) fs)"
  by (simp add: extract_params_eq group_params_def map_concat comp_def)

text \<open>
  C8: the result loop yields exactly \<open>NumFields\<close> results: one per name of a named
  group and one per unnamed group. So a declaration that passed the non-empty-results
  guard always has a non-empty result list.
\<close>

theorem extract_results_num_fields:
  "length (fst (extract_results fs)) = num_fields fs"
  by (induction fs) (simp_all add: extract_results_eq)

text \<open>
  C9: the parameter loop yields \<open>NumFields\<close> parameters only when every parameter
  group is named; an unnamed parameter (\<open>func f(int) bool\<close>) counts for the
  non-empty-parameters guard but contributes no entry, so the Input struct and the call
  lose it.
\<close>

theorem extract_params_num_fields_iff:
  "length (fst (extract_params fs)) = num_fields fs \<longleftrightarrow> (\<forall>f\<in>set fs. field_names f \<noteq> [])"
  by (simp add: length_extract_params sum_names_eq_num_fields_iff)

theorem extract_params_num_fields_iff_witness:
  "num_fields [\<lparr>field_names = [], field_type = Ident ''int''\<rparr>] = 1 \<and>
   length (fst (extract_params [\<lparr>field_names = [], field_type = Ident ''int''\<rparr>])) = 0"
proof -
  have "length (fst (extract_params [\<lparr>field_names = [], field_type = Ident ''int''\<rparr>])) \<noteq>
        num_fields [\<lparr>field_names = [], field_type = Ident ''int''\<rparr>]"
    using extract_params_num_fields_iff [of "[\<lparr>field_names = [], field_type = Ident ''int''\<rparr>]"]
    by simp
  then show ?thesis by (simp add: gen_simps)
qed

text \<open>
  C17: extracting a method whose receiver is unnamed (\<open>func (Foo) M(x int) int\<close>)
  panics with an index out of range, after the parameter and result diagnostics were
  printed; the spec's "the first receiver entry's name" has no such case.
\<close>

theorem extract_decl_unnamed_receiver_panics:
  assumes "fd_recv fd = Some (f # fs)" and "field_names f = []"
    and "ft_results (fd_type fd) = Some rfs"
  shows "extract_decl fd =
           (snd (extract_params (ft_params (fd_type fd))) @ snd (extract_results rfs),
            Inl (IndexOutOfRange 0 0))"
  using assms by (simp add: extract_decl_def extract_receiver_def split_beta)

theorem extract_decl_unnamed_receiver_panics_witness:
  "extract_decl \<lparr>fd_recv = Some [\<lparr>field_names = [], field_type = StarExpr (Ident ''Foo'')\<rparr>],
      fd_name = ''M'',
      fd_type = \<lparr>ft_params = [\<lparr>field_names = [''x''], field_type = Ident ''int''\<rparr>],
                 ft_results = Some [\<lparr>field_names = [], field_type = Ident ''int''\<rparr>]\<rparr>\<rparr>
   = ([], Inl (IndexOutOfRange 0 0))"
  using extract_decl_unnamed_receiver_panics
    [of "\<lparr>fd_recv = Some [\<lparr>field_names = [], field_type = StarExpr (Ident ''Foo'')\<rparr>],
      fd_name = ''M'',
      fd_type = \<lparr>ft_params = [\<lparr>field_names = [''x''], field_type = Ident ''int''\<rparr>],
                 ft_results = Some [\<lparr>field_names = [], field_type = Ident ''int''\<rparr>]\<rparr>\<rparr>"
        "\<lparr>field_names = [], field_type = StarExpr (Ident ''Foo'')\<rparr>" "[]"
        "[\<lparr>field_names = [], field_type = Ident ''int''\<rparr>]"]
  by (simp add: gen_simps)

text \<open>
  C23: an unnamed result is named after its type name lowered, so two unnamed results
  whose type names agree up to ASCII case (\<open>(int, error, int)\<close>, or \<open>(Int, int)\<close>)
  get the same name: the generated \<open>Output\<close> struct declares that field twice and
  the scaffold does not compile.
\<close>

theorem unnamed_results_collide:
  assumes "i < j" and "j < length rfs"
    and "field_names (rfs ! i) = []" and "field_names (rfs ! j) = []"
    and "to_lower (fst (typename (field_type (rfs ! i)))) = to_lower (fst (typename (field_type (rfs ! j))))"
  shows "\<not> distinct (map param_name (fst (extract_results rfs)))"
proof -
  have split: "rfs = take i rfs @ rfs ! i # drop (Suc i) (take j rfs) @ rfs ! j # drop (Suc j) rfs"
    using assms(1,2) by (rule split_list_two_nth)
  show ?thesis
    using assms(3-5) by (subst split) (simp add: extract_results_eq group_results_def Let_def)
qed

theorem unnamed_results_collide_witness:
  "\<not> distinct (map param_name (fst (extract_results
      [\<lparr>field_names = [], field_type = Ident ''int''\<rparr>, \<lparr>field_names = [], field_type = Ident ''error''\<rparr>,
       \<lparr>field_names = [], field_type = Ident ''int''\<rparr>])))"
  using unnamed_results_collide [of 0 2 "[\<lparr>field_names = [], field_type = Ident ''int''\<rparr>,
      \<lparr>field_names = [], field_type = Ident ''error''\<rparr>, \<lparr>field_names = [], field_type = Ident ''int''\<rparr>]"]
  by simp

end
