(* ===== verification/Output_Stream.thy ===== *)
theory Output_Stream
  imports Go_Prelude
begin

text \<open>
  The output destination as an \<open>io.Writer\<close>: an append-only byte stream (standard
  output, or a file opened with \<open>O_APPEND|O_CREATE\<close>) on a device that may accept only
  a bounded number of further bytes (a full disk, a closed pipe). A write that does not
  fit stores the bytes that fit and returns the device's error, as \<open>(*os.File).Write\<close>
  does; nothing is ever taken back. \<open>text/template\<close> executes a template by one write
  per text node and per evaluated action, and stops at the first failed write.
\<close>

record stream =
  contents :: out_text
  room :: "nat option"
  err_msg :: string

definition write_stream :: "stream \<Rightarrow> out_text \<Rightarrow> stream \<times> string option" where
  "write_stream s x =
     (case room s of
        None \<Rightarrow> (s\<lparr>contents := contents s @ x\<rparr>, None)
      | Some r \<Rightarrow>
          (s\<lparr>contents := contents s @ take r x, room := Some (r - length x)\<rparr>,
           if length x \<le> r then None else Some (err_msg s)))"

text \<open>\<open>fmt.Println\<close> and \<open>fmt.Printf\<close> to standard output: the error is ignored.\<close>

definition print_stream :: "stream \<Rightarrow> out_text \<Rightarrow> stream" where
  "print_stream s x = fst (write_stream s x)"

text \<open>A sequence of writes that stops at the first error, as template execution does.\<close>

fun write_chunks :: "stream \<Rightarrow> out_text list \<Rightarrow> stream \<times> string option" where
  "write_chunks s [] = (s, None)"
| "write_chunks s (c # cs) =
     (case write_stream s c of
        (s', None) \<Rightarrow> write_chunks s' cs
      | (s', Some e) \<Rightarrow> (s', Some e))"

declare write_stream_def [gen_simps] print_stream_def [gen_simps] write_chunks.simps [gen_simps]

lemma write_stream_err_msg [simp]: "err_msg (fst (write_stream s x)) = err_msg s"
  by (simp add: write_stream_def split: option.split)

lemma write_stream_append:
  assumes "write_stream s x = (s', None)"
  shows "write_stream s' y = write_stream s (x @ y)"
proof (cases "room s")
  case None
  with assms show ?thesis by (auto simp: write_stream_def)
next
  case (Some r)
  with assms have "length x \<le> r" and s': "s' = s\<lparr>contents := contents s @ x, room := Some (r - length x)\<rparr>"
    by (auto simp: write_stream_def split: if_splits)
  then show ?thesis using Some by (auto simp: write_stream_def take_append)
qed

lemma write_stream_fail_append:
  assumes "write_stream s x = (s', Some e)"
  shows "write_stream s (x @ y) = (s', Some e)"
proof -
  from assms obtain r where r: "room s = Some r" and "r < length x"
    by (auto simp: write_stream_def split: option.splits if_splits)
  with assms show ?thesis by (auto simp: write_stream_def take_append)
qed

lemma write_stream_Nil [simp]: "write_stream s [] = (s, None)"
  by (simp add: write_stream_def split: option.split)

lemma write_chunks_concat:
  "write_chunks s cs = write_stream s (concat cs)"
proof (induction cs arbitrary: s)
  case Nil
  then show ?case by simp
next
  case (Cons c cs)
  show ?case
  proof (cases "write_stream s c")
    case (Pair s' r)
    show ?thesis
    proof (cases r)
      case None
      with Pair Cons.IH show ?thesis by (simp add: write_stream_append)
    next
      case (Some e)
      with Pair show ?thesis by (simp add: write_stream_fail_append)
    qed
  qed
qed

lemma write_stream_unbounded:
  "room s = None \<Longrightarrow> write_stream s x = (s\<lparr>contents := contents s @ x\<rparr>, None)"
  by (simp add: write_stream_def)

lemma write_stream_contents:
  "\<exists>k. contents (fst (write_stream s x)) = contents s @ take k x \<and>
       (snd (write_stream s x) = None \<longrightarrow> k = length x)"
  by (auto simp: write_stream_def split: option.split)

end
