(* ===== verification/Renderer.thy ===== *)
theory Renderer
  imports Signature Output_Stream
begin

text \<open>
  The Scaffold Renderer: \<open>testFuncTemplate\<close> and \<open>testMethodTemplate\<close> of
  \<open>src/main.go\<close>, each as the sequence of writes its execution performs on a
  description (one per text node, one per printed field, trimmed by \<open>{{-\<close> as
  \<open>text/template\<close> does), and \<open>Execute\<close> as those writes on an output stream.
\<close>

abbreviation TB2 :: string where "TB2 \<equiv> TB @ TB"
abbreviation TB3 :: string where "TB3 \<equiv> TB2 @ TB"
abbreviation TB4 :: string where "TB4 \<equiv> TB3 @ TB"

subsection \<open>Template constructs\<close>

text \<open>
  \<open>{{- range .Params }}\<newline>\<dots>{{ .Name }} {{ .Type }}{{ end }}\<close>: per element, the
  newline and three tabs, the name, a space, the type.
\<close>

definition field_nodes :: "param list \<Rightarrow> out_text list" where
  "field_nodes ps = concat (map (\<lambda>p. [NL @ TB3, param_name p, '' '', param_type p]) ps)"

text \<open>
  \<open>{{ range $idx, $ret := xs }}{{ if $idx }}, {{ end }}pre{{ $ret.Name }}{{ end }}\<close>:
  \<open>$idx\<close> is the element's index, true when non-zero.
\<close>

fun sep_nodes :: "nat \<Rightarrow> string \<Rightarrow> ident list \<Rightarrow> out_text list" where
  "sep_nodes idx pre [] = []"
| "sep_nodes idx pre (n # ns) =
     (if idx \<noteq> 0 then ['', ''] else []) @ [pre, n] @ sep_nodes (Suc idx) pre ns"

subsection \<open>The function template\<close>

definition func_template_nodes :: "func \<Rightarrow> out_text list" where
  "func_template_nodes f =
     [NL @ ''func Test'', func_name f,
      ''(t *testing.T) {'' @ NL @ TB @ ''type ('' @ NL @ TB2 @ ''Input struct {'']
     @ field_nodes (func_params f)
     @ [NL @ TB2 @ ''}'' @ NL @ NL @ TB2 @ ''Output struct {'']
     @ field_nodes (func_results f)
     @ [NL @ TB2 @ ''}'' @ NL @ NL @
        TB2 @ ''Case struct {'' @ NL @
        TB3 @ ''Name   string'' @ NL @
        TB3 @ ''In     Input'' @ NL @
        TB3 @ ''Expect Output'' @ NL @
        TB2 @ ''}'' @ NL @
        TB @ '')'' @ NL @ NL @
        TB @ ''// TODO create test cases'' @ NL @
        TB @ ''cases := []Case{}'' @ NL @ NL @
        TB @ ''tester := func(c Case) func(*testing.T) {'' @ NL @
        TB2 @ ''return func(t *testing.T) {'' @ NL @
        TB3 @ ''var actual Output'' @ NL @
        TB3]
     @ sep_nodes 0 ''actual.'' (map param_name (func_results f))
     @ ['' = '', func_name f, ''('']
     @ sep_nodes 0 ''c.In.'' (map param_name (func_params f))
     @ ['')'' @ NL @ NL @
        TB3 @ ''if actual != c.Expect {'' @ NL @
        TB4 @ ''t.Errorf('' @ DQ @ ''expected %+v, actual: %+v'' @ BSL @ ''n'' @ DQ @
          '', c.Expect, actual)'' @ NL @
        TB3 @ ''}'' @ NL @
        TB2 @ ''}'' @ NL @
        TB @ ''}'' @ NL @ NL @
        TB @ ''for _, c := range cases {'' @ NL @
        TB2 @ ''t.Run(c.Name, tester(c))'' @ NL @
        TB @ ''}'' @ NL @
        ''}'' @ NL]"

subsection \<open>The method template\<close>

text \<open>
  \<open>testMethodTemplate\<close> (marked \<open>// TODO method Receiver stuff\<close>) has the same text
  as the function template: it reads \<open>.Name\<close>, \<open>.Params\<close> and \<open>.Results\<close> of the
  \<open>Method\<close> value and never \<open>.Rcvr\<close>.
\<close>

definition method_template_nodes :: "go_method \<Rightarrow> out_text list" where
  "method_template_nodes m =
     [NL @ ''func Test'', method_name m,
      ''(t *testing.T) {'' @ NL @ TB @ ''type ('' @ NL @ TB2 @ ''Input struct {'']
     @ field_nodes (method_params m)
     @ [NL @ TB2 @ ''}'' @ NL @ NL @ TB2 @ ''Output struct {'']
     @ field_nodes (method_results m)
     @ [NL @ TB2 @ ''}'' @ NL @ NL @
        TB2 @ ''Case struct {'' @ NL @
        TB3 @ ''Name   string'' @ NL @
        TB3 @ ''In     Input'' @ NL @
        TB3 @ ''Expect Output'' @ NL @
        TB2 @ ''}'' @ NL @
        TB @ '')'' @ NL @ NL @
        TB @ ''// TODO create test cases'' @ NL @
        TB @ ''cases := []Case{}'' @ NL @ NL @
        TB @ ''tester := func(c Case) func(*testing.T) {'' @ NL @
        TB2 @ ''return func(t *testing.T) {'' @ NL @
        TB3 @ ''var actual Output'' @ NL @
        TB3]
     @ sep_nodes 0 ''actual.'' (map param_name (method_results m))
     @ ['' = '', method_name m, ''('']
     @ sep_nodes 0 ''c.In.'' (map param_name (method_params m))
     @ ['')'' @ NL @ NL @
        TB3 @ ''if actual != c.Expect {'' @ NL @
        TB4 @ ''t.Errorf('' @ DQ @ ''expected %+v, actual: %+v'' @ BSL @ ''n'' @ DQ @
          '', c.Expect, actual)'' @ NL @
        TB3 @ ''}'' @ NL @
        TB2 @ ''}'' @ NL @
        TB @ ''}'' @ NL @ NL @
        TB @ ''for _, c := range cases {'' @ NL @
        TB2 @ ''t.Run(c.Name, tester(c))'' @ NL @
        TB @ ''}'' @ NL @
        ''}'' @ NL]"

subsection \<open>Execution\<close>

text \<open>
  \<open>testFuncTemplate.Execute(outputFile, f)\<close> and
  \<open>testMethodTemplate.Execute(outputFile, m)\<close>, dispatched on the description the
  driver built: the stream after the writes and the error, if a write failed.
\<close>

definition template_nodes :: "description \<Rightarrow> out_text list" where
  "template_nodes d = (case d of FuncDesc f \<Rightarrow> func_template_nodes f
                               | MethodDesc m \<Rightarrow> method_template_nodes m)"

definition execute_template :: "stream \<Rightarrow> description \<Rightarrow> stream \<times> string option" where
  "execute_template s d = write_chunks s (template_nodes d)"

text \<open>The whole text a template produces when every write succeeds.\<close>

definition render :: "description \<Rightarrow> out_text" where
  "render d = concat (template_nodes d)"

definition desc_name :: "description \<Rightarrow> ident" where
  "desc_name d = (case d of FuncDesc f \<Rightarrow> func_name f | MethodDesc m \<Rightarrow> method_name m)"

declare field_nodes_def [gen_simps] sep_nodes.simps [gen_simps] func_template_nodes_def [gen_simps]
  method_template_nodes_def [gen_simps] template_nodes_def [gen_simps] render_def [gen_simps]
  execute_template_def [gen_simps] desc_name_def [gen_simps]

subsection \<open>The text a scaffold consists of\<close>

text \<open>
  The layout \<open>Scaffold Renderer\<close> promises: a struct with one field line per entry, and
  the call line assigning the results positionally from a positional call.
\<close>

definition struct_text :: "string \<Rightarrow> param list \<Rightarrow> out_text" where
  "struct_text nm ps =
     nm @ '' struct {'' @ concat (map (\<lambda>p. NL @ TB3 @ param_name p @ '' '' @ param_type p) ps) @
     NL @ TB2 @ ''}''"

definition call_text :: "ident \<Rightarrow> param list \<Rightarrow> result list \<Rightarrow> out_text" where
  "call_text nm ps rs =
     comma_range ''actual.'' (map param_name rs) @ '' = '' @ nm @ ''('' @
     comma_range ''c.In.'' (map param_name ps) @ '')''"

definition scaffold_head :: "ident \<Rightarrow> out_text" where
  "scaffold_head nm = NL @ ''func Test'' @ nm @ ''(t *testing.T) {''"

definition scaffold_middle :: out_text where
  "scaffold_middle =
     NL @ NL @ TB2 @ ''Case struct {'' @ NL @ TB3 @ ''Name   string'' @ NL @
     TB3 @ ''In     Input'' @ NL @ TB3 @ ''Expect Output'' @ NL @ TB2 @ ''}'' @ NL @
     TB @ '')'' @ NL @ NL @ TB @ ''// TODO create test cases'' @ NL @
     TB @ ''cases := []Case{}'' @ NL @ NL @
     TB @ ''tester := func(c Case) func(*testing.T) {'' @ NL @
     TB2 @ ''return func(t *testing.T) {'' @ NL @ TB3 @ ''var actual Output'' @ NL @ TB3"

definition scaffold_tail :: out_text where
  "scaffold_tail =
     NL @ NL @ TB3 @ ''if actual != c.Expect {'' @ NL @
     TB4 @ ''t.Errorf('' @ DQ @ ''expected %+v, actual: %+v'' @ BSL @ ''n'' @ DQ @
     '', c.Expect, actual)'' @ NL @ TB3 @ ''}'' @ NL @ TB2 @ ''}'' @ NL @ TB @ ''}'' @ NL @ NL @
     TB @ ''for _, c := range cases {'' @ NL @ TB2 @ ''t.Run(c.Name, tester(c))'' @ NL @
     TB @ ''}'' @ NL @ ''}'' @ NL"

definition scaffold_text :: "ident \<Rightarrow> param list \<Rightarrow> result list \<Rightarrow> out_text" where
  "scaffold_text nm ps rs =
     scaffold_head nm @ NL @ TB @ ''type ('' @ NL @ TB2 @ struct_text ''Input'' ps @ NL @ NL @
     TB2 @ struct_text ''Output'' rs @ scaffold_middle @ call_text nm ps rs @ scaffold_tail"

lemma concat_sep_nodes_Suc:
  "concat (sep_nodes (Suc i) pre ns) = concat (map (\<lambda>m. '', '' @ pre @ m) ns)"
  by (induction ns arbitrary: i) simp_all

lemma concat_sep_nodes_0 [simp]: "concat (sep_nodes 0 pre ns) = comma_range pre ns"
  by (cases ns) (simp_all add: concat_sep_nodes_Suc)

lemma concat_field_nodes [simp]:
  "concat (field_nodes ps) = concat (map (\<lambda>p. NL @ TB3 @ param_name p @ '' '' @ param_type p) ps)"
  by (induction ps) (simp_all add: field_nodes_def)

lemma render_FuncDesc:
  "render (FuncDesc f) = scaffold_text (func_name f) (func_params f) (func_results f)"
  by (simp add: render_def template_nodes_def func_template_nodes_def scaffold_text_def
      scaffold_head_def struct_text_def call_text_def scaffold_middle_def scaffold_tail_def)

lemma render_MethodDesc:
  "render (MethodDesc m) = scaffold_text (method_name m) (method_params m) (method_results m)"
  by (simp add: render_def template_nodes_def method_template_nodes_def scaffold_text_def
      scaffold_head_def struct_text_def call_text_def scaffold_middle_def scaffold_tail_def)

lemma execute_template_render: "execute_template s d = write_stream s (render d)"
  by (simp add: execute_template_def render_def write_chunks_concat)

lemma render_starts_with_head:
  "\<exists>rest. render d = scaffold_head (desc_name d) @ rest"
  by (cases d) (auto simp: render_FuncDesc render_MethodDesc scaffold_text_def desc_name_def)

subsection \<open>Properties\<close>

text \<open>
  C6: the function template renders an \<open>Input\<close> struct with one field per parameter
  and an \<open>Output\<close> struct with one field per result, in declaration order, and the
  call line assigns the results positionally from a positional call:
  \<open>actual.c, actual.d = f(c.In.a, c.In.b)\<close>.
\<close>

theorem render_func_layout:
  "render (FuncDesc f) =
     scaffold_head (func_name f) @ NL @ TB @ ''type ('' @ NL @
     TB2 @ struct_text ''Input'' (func_params f) @ NL @ NL @
     TB2 @ struct_text ''Output'' (func_results f) @ scaffold_middle @
     comma_range ''actual.'' (map param_name (func_results f)) @ '' = '' @ func_name f @ ''('' @
     comma_range ''c.In.'' (map param_name (func_params f)) @ '')'' @ scaffold_tail"
  by (simp add: render_FuncDesc scaffold_text_def call_text_def)

text \<open>
  C18: the method template ignores the receiver: a method scaffold is the function
  scaffold of the same name, parameters and results, so it calls the method as a plain
  function (\<open>M(c.In.x)\<close>) with no receiver value.
\<close>

theorem render_method_ignores_receiver:
  "render (MethodDesc m) =
     render (FuncDesc \<lparr>func_name = method_name m, func_params = method_params m,
                       func_results = method_results m\<rparr>)"
  by (simp add: render_FuncDesc render_MethodDesc)

end
