(* ===== verification/Eligibility.thy ===== *)
theory Eligibility
  imports Go_Ast
begin

text \<open>
  The Eligibility Filter: the guards at the top of the object loop of \<open>main\<close>
  (lines 199--226 of \<open>src/main.go\<close>), \<open>packageContains\<close>, and \<open>filesToIgnore\<close>,
  the file filter handed to \<open>parser.ParseDir\<close>. The guards are evaluated in the
  source's order; the first that fires decides the object's verdict.
\<close>

subsection \<open>Duplicate detection\<close>

text \<open>
  \<open>packageContains(pkg, name)\<close>: some scope object of some parsed file of the package
  has that name. Only what the parser put into file scopes is seen.
\<close>

definition package_contains :: "package \<Rightarrow> ident \<Rightarrow> bool" where
  "package_contains pkg nm =
     list_ex (\<lambda>f. list_ex (\<lambda>ob. obj_name ob = nm) (file_objects f)) (pkg_files pkg)"

subsection \<open>The file filter\<close>

text \<open>
  \<open>filesToIgnore\<close>: despite its name, the predicate \<open>ParseDir\<close> keeps a file for; it
  keeps every file except those ending in \<open>_test.go\<close>.
\<close>

definition files_to_ignore :: "string \<Rightarrow> bool" where
  "files_to_ignore nm = (if has_suffix nm ''_test.go'' then False else True)"

subsection \<open>The verdict on one scope object\<close>

datatype verdict =
    NotFunc
  | InvalidPos
  | Unmatched
  | HasTest
  | NotFuncDecl
  | NoParams
  | NoResults
  | Candidate func_decl

text \<open>
  \<open>obj.Kind != ast.Fun\<close>, \<open>!obj.Pos().IsValid()\<close>, \<open>!filter.MatchString(obj.Name)\<close>,
  \<open>packageContains(pkg, "Test"+obj.Name)\<close>, the assertion
  \<open>obj.Decl.(*ast.FuncDecl)\<close> (which panics for any other declaration),
  \<open>fn.Type.Params.NumFields() == 0\<close>, and
  \<open>fn.Type.Results == nil || fn.Type.Results.NumFields() == 0\<close>.
  The filter is the compiled name pattern's \<open>MatchString\<close>.
\<close>

definition classify :: "(ident \<Rightarrow> bool) \<Rightarrow> package \<Rightarrow> object \<Rightarrow> verdict" where
  "classify flt pkg ob =
     (if obj_kind ob \<noteq> Fun then NotFunc
      else if \<not> obj_pos_valid ob then InvalidPos
      else if \<not> flt (obj_name ob) then Unmatched
      else if package_contains pkg (''Test'' @ obj_name ob) then HasTest
      else case obj_decl ob of
             OtherDeclNode \<Rightarrow> NotFuncDecl
           | FuncDeclNode fd \<Rightarrow>
               if num_fields (ft_params (fd_type fd)) = 0 then NoParams
               else if ft_results (fd_type fd) = None \<or> num_fields_opt (ft_results (fd_type fd)) = 0
               then NoResults
               else Candidate fd)"

declare package_contains_def [gen_simps]
  files_to_ignore_def [gen_simps] classify_def [gen_simps]

lemma package_contains_iff:
  "package_contains pkg nm \<longleftrightarrow> (\<exists>f\<in>set (pkg_files pkg). \<exists>ob\<in>set (file_objects f). obj_name ob = nm)"
  by (simp add: package_contains_def list_ex_iff)

lemma classify_Candidate_decl:
  "classify flt pkg ob = Candidate fd \<Longrightarrow> obj_decl ob = FuncDeclNode fd"
  by (auto simp: classify_def split: if_splits decl_node.splits)

lemma classify_Candidate_results:
  "classify flt pkg ob = Candidate fd \<Longrightarrow> \<exists>rfs. ft_results (fd_type fd) = Some rfs \<and> rfs \<noteq> []"
  by (auto simp: classify_def split: if_splits decl_node.splits)

lemma classify_NotFuncDecl_wf:
  "fun_obj_ok ob \<Longrightarrow> classify flt pkg ob \<noteq> NotFuncDecl"
  by (auto simp: classify_def fun_obj_ok_def split: decl_node.splits)

lemma classify_Candidate_no_recv:
  "fun_obj_ok ob \<Longrightarrow> classify flt pkg ob = Candidate fd \<Longrightarrow> fd_recv fd = None"
  by (auto simp: classify_def fun_obj_ok_def split: if_splits decl_node.splits)

lemma classify_Candidate_name:
  "fun_obj_ok ob \<Longrightarrow> classify flt pkg ob = Candidate fd \<Longrightarrow> fd_name fd = obj_name ob"
  by (auto simp: classify_def fun_obj_ok_def split: if_splits decl_node.splits)

lemma classify_HasTest:
  "package_contains pkg (''Test'' @ obj_name ob) \<Longrightarrow> classify flt pkg ob \<notin> range Candidate"
  by (auto simp: classify_def)

subsection \<open>Properties\<close>

text \<open>
  C1: an object reaches scaffold generation exactly when it is a function object with a
  valid position, its name matches the filter, no scope object of any parsed file of the
  package is named \<open>Test\<close> followed by its name, its declaration is a \<open>FuncDecl\<close>,
  and it declares at least one parameter and at least one result (counted as
  \<open>NumFields\<close> counts them).
\<close>

theorem classify_candidate_iff:
  "classify flt pkg ob = Candidate fd \<longleftrightarrow>
     obj_kind ob = Fun \<and> obj_pos_valid ob \<and> flt (obj_name ob) \<and>
     \<not> package_contains pkg (''Test'' @ obj_name ob) \<and> obj_decl ob = FuncDeclNode fd \<and>
     num_fields (ft_params (fd_type fd)) \<noteq> 0 \<and> num_fields_opt (ft_results (fd_type fd)) \<noteq> 0"
  by (auto simp: classify_def num_fields_opt_def split: decl_node.splits option.splits)

end
