(* ===== verification/Driver.thy ===== *)
theory Driver
  imports Renderer Eligibility
begin

text \<open>
  The Driver: the loop of \<open>main\<close> over parsed packages, their files and the objects of
  each file scope (lines 196--288 of \<open>src/main.go\<close>). The state it changes is the
  process's standard output and the output file; when the output is \<open>stdout\<close> both
  are the same stream, so diagnostics and scaffolds interleave. The loop ends early on a
  render error (\<open>os.Exit(1)\<close>) or a run-time panic.
\<close>

record io =
  io_stdout :: stream
  io_outfile :: stream

text \<open>\<open>outputFile\<close>: \<open>os.Stdout\<close>, or the file opened from the \<open>-o\<close> path.\<close>

datatype dest = ToStdout | ToFile string

definition out_of :: "dest \<Rightarrow> io \<Rightarrow> stream" where
  "out_of dst w = (case dst of ToStdout \<Rightarrow> io_stdout w | ToFile _ \<Rightarrow> io_outfile w)"

definition set_out :: "dest \<Rightarrow> io \<Rightarrow> stream \<Rightarrow> io" where
  "set_out dst w s = (case dst of ToStdout \<Rightarrow> w\<lparr>io_stdout := s\<rparr> | ToFile _ \<Rightarrow> w\<lparr>io_outfile := s\<rparr>)"

text \<open>\<open>fmt.Println\<close>/\<open>fmt.Printf\<close>: to standard output, errors ignored.\<close>

definition println :: "io \<Rightarrow> out_text \<Rightarrow> io" where
  "println w x = w\<lparr>io_stdout := print_stream (io_stdout w) x\<rparr>"

text \<open>Where the run stands: stopped with the state at that moment, or still going.\<close>

type_synonym outcome = "(halt \<times> io) + io"

subsection \<open>One candidate\<close>

text \<open>
  Lines 228--285: the extraction (whose \<open>typename\<close> calls print as they go), the
  template, and on a write error the message and \<open>os.Exit(1)\<close>.
\<close>

definition gen_candidate :: "dest \<Rightarrow> io \<Rightarrow> func_decl \<Rightarrow> outcome" where
  "gen_candidate dst w fd =
     (let (d, r) = extract_decl fd; w1 = println w d
      in case r of
           Inl p \<Rightarrow> Inl (Panicked p, w1)
         | Inr desc \<Rightarrow>
             (let (s, e) = execute_template (out_of dst w1) desc; w2 = set_out dst w1 s
              in case e of
                   None \<Rightarrow> Inr w2
                 | Some msg \<Rightarrow>
                     Inl (ExitStatus 1,
                          println w2 (''creating test function for '' @ fd_name fd @ '': '' @ msg @ NL))))"

subsection \<open>One scope object\<close>

definition gen_object :: "(ident \<Rightarrow> bool) \<Rightarrow> dest \<Rightarrow> package \<Rightarrow> io \<Rightarrow> object \<Rightarrow> outcome" where
  "gen_object flt dst pkg w ob =
     (case classify flt pkg ob of
        InvalidPos \<Rightarrow> Inr (println w (''skipping invalid '' @ obj_name ob @ NL))
      | NotFuncDecl \<Rightarrow> Inl (Panicked BadTypeAssertion, w)
      | Candidate fd \<Rightarrow> gen_candidate dst w fd
      | _ \<Rightarrow> Inr w)"

subsection \<open>The three nested loops\<close>

fun gen_objects :: "(ident \<Rightarrow> bool) \<Rightarrow> dest \<Rightarrow> package \<Rightarrow> io \<Rightarrow> object list \<Rightarrow> outcome" where
  "gen_objects flt dst pkg w [] = Inr w"
| "gen_objects flt dst pkg w (ob # obs) =
     (case gen_object flt dst pkg w ob of
        Inl h \<Rightarrow> Inl h
      | Inr w' \<Rightarrow> gen_objects flt dst pkg w' obs)"

fun gen_files :: "(ident \<Rightarrow> bool) \<Rightarrow> dest \<Rightarrow> package \<Rightarrow> io \<Rightarrow> go_file list \<Rightarrow> outcome" where
  "gen_files flt dst pkg w [] = Inr w"
| "gen_files flt dst pkg w (f # fs) =
     (case gen_objects flt dst pkg w (file_objects f) of
        Inl h \<Rightarrow> Inl h
      | Inr w' \<Rightarrow> gen_files flt dst pkg w' fs)"

fun gen_packages :: "(ident \<Rightarrow> bool) \<Rightarrow> dest \<Rightarrow> io \<Rightarrow> package list \<Rightarrow> outcome" where
  "gen_packages flt dst w [] = Inr w"
| "gen_packages flt dst w (p # ps) =
     (case gen_files flt dst p w (pkg_files p) of
        Inl h \<Rightarrow> Inl h
      | Inr w' \<Rightarrow> gen_packages flt dst w' ps)"

declare out_of_def [gen_simps] set_out_def [gen_simps] println_def [gen_simps]
  gen_candidate_def [gen_simps] gen_object_def [gen_simps]

subsection \<open>What the loop should write\<close>

text \<open>
  The contract of the spec: one scaffold per eligible declaration, rendered from its
  extracted signature, none for any other object, in traversal order.
\<close>

definition func_of_decl :: "func_decl \<Rightarrow> func" where
  "func_of_decl fd =
     \<lparr>func_name = fd_name fd,
      func_params = fst (extract_params (ft_params (fd_type fd))),
      func_results = fst (extract_results (case ft_results (fd_type fd) of None \<Rightarrow> [] | Some rfs \<Rightarrow> rfs))\<rparr>"

definition expected_scaffold :: "(ident \<Rightarrow> bool) \<Rightarrow> package \<Rightarrow> object \<Rightarrow> out_text" where
  "expected_scaffold flt pkg ob =
     (case classify flt pkg ob of Candidate fd \<Rightarrow> render (FuncDesc (func_of_decl fd)) | _ \<Rightarrow> [])"

definition expected_output :: "(ident \<Rightarrow> bool) \<Rightarrow> package \<Rightarrow> object list \<Rightarrow> out_text" where
  "expected_output flt pkg obs = concat (map (expected_scaffold flt pkg) obs)"

definition pkgs_wf :: "package list \<Rightarrow> bool" where
  "pkgs_wf ps \<longleftrightarrow> (\<forall>p\<in>set ps. \<forall>f\<in>set (pkg_files p). list_all fun_obj_ok (file_objects f))"

definition expected_run :: "(ident \<Rightarrow> bool) \<Rightarrow> package list \<Rightarrow> out_text" where
  "expected_run flt ps =
     concat (map (\<lambda>p. concat (map (\<lambda>f. expected_output flt p (file_objects f)) (pkg_files p))) ps)"

text \<open>
  The run writes \<open>x\<close> to the output file in order, stopping at the first failed write:
  it finishes (with whatever it printed to standard output) when the whole of \<open>x\<close> was
  accepted, and exits with status 1 otherwise.
\<close>

definition file_run :: "outcome \<Rightarrow> io \<Rightarrow> out_text \<Rightarrow> bool" where
  "file_run res w x \<longleftrightarrow>
     (\<exists>w1 w2. res = (case write_stream (io_outfile w) x of
                        (s, None) \<Rightarrow> Inr (w1\<lparr>io_outfile := s\<rparr>)
                      | (s, Some m) \<Rightarrow> Inl (ExitStatus 1, w2\<lparr>io_outfile := s\<rparr>)))"

text \<open>A sample declaration: \<open>func Add(x, y int) int\<close>.\<close>

definition sample_add_fd :: func_decl where
  "sample_add_fd =
     \<lparr>fd_recv = None, fd_name = ''Add'',
      fd_type = \<lparr>ft_params = [\<lparr>field_names = [''x'', ''y''], field_type = Ident ''int''\<rparr>],
                 ft_results = Some [\<lparr>field_names = [], field_type = Ident ''int''\<rparr>]\<rparr>\<rparr>"

definition sample_add_obj :: object where
  "sample_add_obj =
     \<lparr>obj_kind = Fun, obj_name = ''Add'', obj_decl = FuncDeclNode sample_add_fd, obj_pos_valid = True\<rparr>"

text \<open>The sample package: one file declaring \<open>Add\<close>.\<close>

definition sample_pkg :: package where
  "sample_pkg = \<lparr>pkg_name = ''main'', pkg_files = [\<lparr>file_name = ''add.go'', file_objects = [sample_add_obj]\<rparr>]\<rparr>"

subsection \<open>The run writes what the contract says\<close>

lemma file_run_Nil: "file_run (Inr w) w []"
  unfolding file_run_def by (rule exI [of _ w]) simp

lemma file_run_seq:
  assumes r1: "file_run r w x"
    and r2: "\<And>w'. r = Inr w' \<Longrightarrow> file_run (k w') w' y"
  shows "file_run (case r of Inl h \<Rightarrow> Inl h | Inr w' \<Rightarrow> k w') w (x @ y)"
proof -
  from r1 obtain w1 w2 where r: "r = (case write_stream (io_outfile w) x of
                        (s, None) \<Rightarrow> Inr (w1\<lparr>io_outfile := s\<rparr>)
                      | (s, Some m) \<Rightarrow> Inl (ExitStatus 1, w2\<lparr>io_outfile := s\<rparr>))"
    unfolding file_run_def by blast
  obtain s e where se: "write_stream (io_outfile w) x = (s, e)" by fastforce
  show ?thesis
  proof (cases e)
    case None
    with r se have rr: "r = Inr (w1\<lparr>io_outfile := s\<rparr>)" by simp
    from r2 [OF rr] have "file_run (k (w1\<lparr>io_outfile := s\<rparr>)) (w1\<lparr>io_outfile := s\<rparr>) y" .
    moreover from se None have "write_stream s y = write_stream (io_outfile w) (x @ y)"
      by (simp add: write_stream_append)
    ultimately show ?thesis using rr by (simp add: file_run_def)
  next
    case (Some m)
    with se have "write_stream (io_outfile w) (x @ y) = (s, Some m)"
      by (simp add: write_stream_fail_append)
    with r se Some show ?thesis unfolding file_run_def by auto
  qed
qed

lemma file_run_stdout_only: "io_outfile w' = io_outfile w \<Longrightarrow> file_run (Inr w') w []"
  unfolding file_run_def by (rule exI [of _ w']) simp

lemma extract_decl_func:
  assumes "fd_recv fd = None" and "ft_results (fd_type fd) = Some rfs"
  shows "extract_decl fd =
           (snd (extract_params (ft_params (fd_type fd))) @ snd (extract_results rfs),
            Inr (FuncDesc (func_of_decl fd)))"
  using assms by (simp add: extract_decl_def func_of_decl_def split_beta)

lemma gen_object_file_run:
  assumes "fun_obj_ok ob"
  shows "file_run (gen_object flt (ToFile p) pkg w ob) w (expected_scaffold flt pkg ob)"
proof (cases "classify flt pkg ob")
  case (Candidate fd)
  with assms have recv: "fd_recv fd = None" by (rule classify_Candidate_no_recv)
  from Candidate obtain rfs where rfs: "ft_results (fd_type fd) = Some rfs"
    using classify_Candidate_results by blast
  let ?d = "snd (extract_params (ft_params (fd_type fd))) @ snd (extract_results rfs)"
  let ?w1 = "println w ?d"
  obtain s e where se: "write_stream (io_outfile w) (render (FuncDesc (func_of_decl fd))) = (s, e)"
    by fastforce
  have g: "gen_object flt (ToFile p) pkg w ob =
           (case e of None \<Rightarrow> Inr (?w1\<lparr>io_outfile := s\<rparr>)
            | Some m \<Rightarrow> Inl (ExitStatus 1, println (?w1\<lparr>io_outfile := s\<rparr>)
                 (''creating test function for '' @ fd_name fd @ '': '' @ m @ NL)))"
    using Candidate extract_decl_func [OF recv rfs] se
    by (cases e) (simp_all add: gen_object_def gen_candidate_def execute_template_render out_of_def
        set_out_def println_def Let_def)
  show ?thesis
  proof (cases e)
    case None
    with g se Candidate show ?thesis
      unfolding file_run_def expected_scaffold_def by (intro exI [of _ ?w1]) simp
  next
    case (Some m)
    with g se Candidate show ?thesis
      unfolding file_run_def expected_scaffold_def
      by (intro exI [of _ ?w1] exI [of _ "println ?w1
            (''creating test function for '' @ fd_name fd @ '': '' @ m @ NL)"])
        (simp add: println_def)
  qed
next
  case NotFuncDecl
  with assms show ?thesis by (simp add: classify_NotFuncDecl_wf)
qed (simp_all add: gen_object_def expected_scaffold_def println_def file_run_stdout_only)

lemma gen_objects_file_run:
  "list_all fun_obj_ok obs \<Longrightarrow>
   file_run (gen_objects flt (ToFile p) pkg w obs) w (expected_output flt pkg obs)"
proof (induction obs arbitrary: w)
  case Nil
  show ?case by (simp add: expected_output_def file_run_Nil)
next
  case (Cons ob obs)
  have "file_run (case gen_object flt (ToFile p) pkg w ob of
                    Inl h \<Rightarrow> Inl h | Inr w' \<Rightarrow> gen_objects flt (ToFile p) pkg w' obs)
                 w (expected_scaffold flt pkg ob @ expected_output flt pkg obs)"
    using Cons by (intro file_run_seq) (simp_all add: gen_object_file_run)
  then show ?case by (simp add: expected_output_def)
qed

lemma gen_files_file_run:
  "\<forall>f\<in>set fs. list_all fun_obj_ok (file_objects f) \<Longrightarrow>
   file_run (gen_files flt (ToFile p) pkg w fs) w
     (concat (map (\<lambda>f. expected_output flt pkg (file_objects f)) fs))"
proof (induction fs arbitrary: w)
  case Nil
  show ?case by (simp add: file_run_Nil)
next
  case (Cons f fs)
  then show ?case by (simp, intro file_run_seq) (simp_all add: gen_objects_file_run)
qed

lemma gen_packages_file_run:
  "pkgs_wf ps \<Longrightarrow> file_run (gen_packages flt (ToFile p) w ps) w (expected_run flt ps)"
proof (induction ps arbitrary: w)
  case Nil
  show ?case by (simp add: expected_run_def file_run_Nil)
next
  case (Cons pk ps)
  from Cons.prems have "pkgs_wf ps" and "\<forall>f\<in>set (pkg_files pk). list_all fun_obj_ok (file_objects f)"
    by (simp_all add: pkgs_wf_def)
  then show ?case
    using Cons.IH by (simp add: expected_run_def, intro file_run_seq) (simp_all add: gen_files_file_run)
qed

lemma gen_packages_unbounded:
  assumes "room (io_outfile w) = None" and "pkgs_wf ps"
  shows "\<exists>w'. gen_packages flt (ToFile p) w ps = Inr w' \<and>
              io_outfile w' = (io_outfile w)\<lparr>contents := contents (io_outfile w) @ expected_run flt ps\<rparr>"
  using gen_packages_file_run [OF assms(2), of flt p w] assms(1)
  by (auto simp: file_run_def write_stream_def)

text \<open>
  C2: with an output file that accepts every write, the run over all packages, files and
  scope objects finishes and appends to the file exactly one scaffold per eligible
  function, rendered from its extracted signature, in traversal order, and nothing for
  any other object; standard output receives only diagnostics.
\<close>

theorem gen_packages_complete:
  assumes "room (io_outfile w) = None" and "pkgs_wf ps"
  shows "\<exists>w'. gen_packages flt (ToFile p) w ps = Inr w' \<and>
              contents (io_outfile w') = contents (io_outfile w) @ expected_run flt ps"
  using gen_packages_unbounded [OF assms, of flt p] by auto

text \<open>
  C3: when the output file accepts only \<open>r\<close> more bytes and the scaffolds need more, the
  run stops with exit status 1 and the file keeps exactly the first \<open>r\<close> bytes of what
  the complete run would have written; nothing is rolled back.
\<close>

theorem gen_packages_write_failure:
  assumes "room (io_outfile w) = Some r" and "r < length (expected_run flt ps)" and "pkgs_wf ps"
  shows "\<exists>w'. gen_packages flt (ToFile p) w ps = Inl (ExitStatus 1, w') \<and>
              contents (io_outfile w') = contents (io_outfile w) @ take r (expected_run flt ps)"
  using gen_packages_file_run [OF assms(3), of flt p w] assms(1,2)
  by (auto simp: file_run_def write_stream_def)

theorem gen_packages_complete_witness:
  "\<exists>w'. gen_packages (\<lambda>_. True) (ToFile ''out.go'')
          \<lparr>io_stdout = \<lparr>contents = [], room = None, err_msg = []\<rparr>,
           io_outfile = \<lparr>contents = [], room = None, err_msg = []\<rparr>\<rparr>
          [\<lparr>pkg_name = ''main'', pkg_files = [\<lparr>file_name = ''main.go'', file_objects = [sample_add_obj]\<rparr>]\<rparr>]
        = Inr w' \<and>
        contents (io_outfile w') = expected_run (\<lambda>_. True)
          [\<lparr>pkg_name = ''main'', pkg_files = [\<lparr>file_name = ''main.go'', file_objects = [sample_add_obj]\<rparr>]\<rparr>]"
  using gen_packages_complete [of "\<lparr>io_stdout = \<lparr>contents = [], room = None, err_msg = []\<rparr>,
           io_outfile = \<lparr>contents = [], room = None, err_msg = []\<rparr>\<rparr>"
      "[\<lparr>pkg_name = ''main'', pkg_files = [\<lparr>file_name = ''main.go'', file_objects = [sample_add_obj]\<rparr>]\<rparr>]"
      "\<lambda>_. True" "''out.go''"]
  by (simp add: pkgs_wf_def fun_obj_ok_def sample_add_obj_def sample_add_fd_def)

theorem gen_packages_write_failure_witness:
  "\<exists>w'. gen_packages (\<lambda>_. True) (ToFile ''out.go'')
          \<lparr>io_stdout = \<lparr>contents = [], room = None, err_msg = []\<rparr>,
           io_outfile = \<lparr>contents = [], room = Some 3, err_msg = ''no space left on device''\<rparr>\<rparr>
          [\<lparr>pkg_name = ''main'', pkg_files = [\<lparr>file_name = ''main.go'', file_objects = [sample_add_obj]\<rparr>]\<rparr>]
        = Inl (ExitStatus 1, w') \<and> contents (io_outfile w') = NL @ ''fu''"
proof -
  have e: "expected_run (\<lambda>_. True)
      [\<lparr>pkg_name = ''main'', pkg_files = [\<lparr>file_name = ''main.go'', file_objects = [sample_add_obj]\<rparr>]\<rparr>] =
      render (FuncDesc (func_of_decl \<lparr>fd_recv = None, fd_name = ''Add'',
        fd_type = \<lparr>ft_params = [\<lparr>field_names = [''x'', ''y''], field_type = Ident ''int''\<rparr>],
                   ft_results = Some [\<lparr>field_names = [], field_type = Ident ''int''\<rparr>]\<rparr>\<rparr>))"
    by (simp add: expected_run_def expected_output_def expected_scaffold_def sample_add_obj_def
        sample_add_fd_def classify_def package_contains_def)
  have "take 3 (render (FuncDesc f)) = NL @ ''fu''" and "3 < length (render (FuncDesc f))" for f
    by (simp_all add: render_FuncDesc scaffold_text_def scaffold_head_def)
  then show ?thesis
    using gen_packages_write_failure [of "\<lparr>io_stdout = \<lparr>contents = [], room = None, err_msg = []\<rparr>,
           io_outfile = \<lparr>contents = [], room = Some 3, err_msg = ''no space left on device''\<rparr>\<rparr>"
      3 "\<lambda>_. True" "[\<lparr>pkg_name = ''main'', pkg_files = [\<lparr>file_name = ''main.go'', file_objects = [sample_add_obj]\<rparr>]\<rparr>]"
      "''out.go''"] e
    by (simp add: pkgs_wf_def fun_obj_ok_def sample_add_obj_def sample_add_fd_def)
qed

text \<open>
  C14: when the output is standard output, the diagnostics \<open>typename\<close> prints while a
  signature is extracted land in the same stream right before the scaffold, so the
  generated code contains lines such as \<open>*ast.ArrayType\<close>; the spec says the output
  carries nothing but the scaffolds.
\<close>

theorem stdout_output_interleaves:
  assumes "room (io_stdout w) = None" and "fun_obj_ok ob" and "classify flt pkg ob = Candidate fd"
  shows "\<exists>w'. gen_object flt ToStdout pkg w ob = Inr w' \<and>
              contents (io_stdout w') = contents (io_stdout w) @ fst (extract_decl fd) @
                                        render (FuncDesc (func_of_decl fd))"
proof -
  from assms(2,3) have "fd_recv fd = None" by (rule classify_Candidate_no_recv)
  moreover from assms(3) obtain rfs where "ft_results (fd_type fd) = Some rfs"
    using classify_Candidate_results by blast
  ultimately have "extract_decl fd =
           (snd (extract_params (ft_params (fd_type fd))) @ snd (extract_results rfs),
            Inr (FuncDesc (func_of_decl fd)))"
    by (rule extract_decl_func)
  with assms(1,3) show ?thesis
    by (simp add: gen_object_def gen_candidate_def execute_template_render out_of_def set_out_def
        println_def print_stream_def write_stream_def)
qed

theorem stdout_output_interleaves_witness:
  "\<exists>w'. gen_object (\<lambda>_. True) ToStdout
          \<lparr>pkg_name = ''main'', pkg_files = []\<rparr>
          \<lparr>io_stdout = \<lparr>contents = [], room = None, err_msg = []\<rparr>,
           io_outfile = \<lparr>contents = [], room = None, err_msg = []\<rparr>\<rparr>
          \<lparr>obj_kind = Fun, obj_name = ''Sum'',
           obj_decl = FuncDeclNode \<lparr>fd_recv = None, fd_name = ''Sum'',
             fd_type = \<lparr>ft_params = [\<lparr>field_names = [''xs''], field_type = ArrayType None (Ident ''int'')\<rparr>],
                        ft_results = Some [\<lparr>field_names = [], field_type = Ident ''int''\<rparr>]\<rparr>\<rparr>,
           obj_pos_valid = True\<rparr> = Inr w' \<and>
        contents (io_stdout w') =
          ''*ast.ArrayType'' @ NL @
          render (FuncDesc \<lparr>func_name = ''Sum'', func_params = [\<lparr>param_name = ''xs'', param_type = []\<rparr>],
                            func_results = [\<lparr>param_name = ''int'', param_type = ''int''\<rparr>]\<rparr>)"
  using stdout_output_interleaves
    [where w = "\<lparr>io_stdout = \<lparr>contents = [], room = None, err_msg = []\<rparr>,
                 io_outfile = \<lparr>contents = [], room = None, err_msg = []\<rparr>\<rparr>"
       and flt = "\<lambda>_. True" and pkg = "\<lparr>pkg_name = ''main'', pkg_files = []\<rparr>"
       and ob = "\<lparr>obj_kind = Fun, obj_name = ''Sum'',
           obj_decl = FuncDeclNode \<lparr>fd_recv = None, fd_name = ''Sum'',
             fd_type = \<lparr>ft_params = [\<lparr>field_names = [''xs''], field_type = ArrayType None (Ident ''int'')\<rparr>],
                        ft_results = Some [\<lparr>field_names = [], field_type = Ident ''int''\<rparr>]\<rparr>\<rparr>,
           obj_pos_valid = True\<rparr>"
       and fd = "\<lparr>fd_recv = None, fd_name = ''Sum'',
             fd_type = \<lparr>ft_params = [\<lparr>field_names = [''xs''], field_type = ArrayType None (Ident ''int'')\<rparr>],
                        ft_results = Some [\<lparr>field_names = [], field_type = Ident ''int''\<rparr>]\<rparr>\<rparr>"]
  by (simp add: fun_obj_ok_def classify_def package_contains_def func_of_decl_def gen_simps)

end
