(* ===== verification/Config.thy ===== *)
theory Config
  imports Driver
begin

text \<open>
  The set-up steps of \<open>main\<close> before the scan (lines 137--194 of \<open>src/main.go\<close>):
  the outcome of flag parsing, the default name pattern, opening the output, resolving
  the package path. Library calls (\<open>os.OpenFile\<close>, \<open>os.Getwd\<close>,
  \<open>os.ExpandEnv(path.Join("$GOPATH", p))\<close>) are parameters: what they return is
  given, what the program does with it is modelled.
\<close>

abbreviation SQ :: string where "SQ \<equiv> [CHR 0x27]"

subsection \<open>Flags\<close>

text \<open>
  \<open>flag.CommandLine.Parse\<close> with \<open>ContinueOnError\<close>: success, \<open>flag.ErrHelp\<close>
  (for \<open>-h\<close>), or another error. On either error \<open>main\<close> prints to standard output
  and exits 1 (the flag package's own usage text goes to standard error, not modelled).
\<close>

datatype flag_outcome = FlagsOk | FlagHelp | FlagError string

definition help_msg :: string where
  "help_msg = ''testGen - usage: testGen [-o output] (input regex)''"

definition check_flags :: "flag_outcome \<Rightarrow> io \<Rightarrow> (halt \<times> io) + unit" where
  "check_flags fo w =
     (case fo of
        FlagsOk \<Rightarrow> Inr ()
      | FlagHelp \<Rightarrow> Inl (ExitStatus 1, println w (help_msg @ NL))
      | FlagError err \<Rightarrow> Inl (ExitStatus 1, println w (err @ NL)))"

subsection \<open>The name pattern\<close>

text \<open>\<open>input = flag.CommandLine.Arg(0)\<close>, and \<open>`\.*`\<close> when it is empty.\<close>

definition default_pattern :: string where
  "default_pattern = BSL @ ''.*''"

definition input_pattern :: "string \<Rightarrow> string" where
  "input_pattern arg0 = (if arg0 = [] then default_pattern else arg0)"

subsection \<open>The output\<close>

text \<open>
  \<open>-o stdout\<close> (the default) writes to standard output; any other value is opened with
  \<open>O_RDWR|O_APPEND|O_CREATE\<close>, keeping what the file holds. \<open>openf\<close> is the error
  \<open>os.OpenFile\<close> returns, if any.
\<close>

definition open_output :: "string \<Rightarrow> (string \<Rightarrow> string option) \<Rightarrow> io \<Rightarrow> (halt \<times> io) + dest" where
  "open_output out openf w =
     (if out = ''stdout'' then Inr ToStdout
      else case openf out of
             None \<Rightarrow> Inr (ToFile out)
           | Some err \<Rightarrow>
               Inl (ExitStatus 1, println w (''could not open '' @ SQ @ out @ SQ @ '': '' @ err @ NL)))"

subsection \<open>The package path\<close>

text \<open>\<open>path.IsAbs\<close>: the path starts with a slash.\<close>

definition is_abs :: "string \<Rightarrow> bool" where
  "is_abs p = (case p of [] \<Rightarrow> False | c # _ \<Rightarrow> c = CHR ''/'')"

text \<open>
  \<open>-p pwd\<close> (the default) is the working directory. A relative path is meant to be taken
  relative to \<open>$GOPATH\<close>: the code computes \<open>os.ExpandEnv(path.Join("$GOPATH", p))\<close>
  (\<open>expand\<close>) into a new variable declared by \<open>:=\<close> inside the \<open>else if\<close> block,
  checks that it is absolute, and drops it; the flag variable keeps \<open>p\<close>.
\<close>

definition resolve_package ::
  "string \<Rightarrow> string + string \<Rightarrow> (string \<Rightarrow> string) \<Rightarrow> io \<Rightarrow> (halt \<times> io) + string" where
  "resolve_package pp getwd expand w =
     (if pp = ''pwd'' then
        (case getwd of
           Inl err \<Rightarrow> Inl (ExitStatus 1, println w (''could not get working directory: '' @ err @ NL))
         | Inr dir \<Rightarrow> Inr dir)
      else if \<not> is_abs pp then
        (let shadowed = expand pp
         in if \<not> is_abs shadowed
            then Inl (ExitStatus 1,
                   println w (''GOPATH does not seem to be set - cannot use GOPATH relative package paths'' @ NL))
            else Inr pp)
      else Inr pp)"

declare check_flags_def [gen_simps] default_pattern_def [gen_simps] input_pattern_def [gen_simps]
  open_output_def [gen_simps] is_abs_def [gen_simps] resolve_package_def [gen_simps]

subsection \<open>Properties\<close>

text \<open>
  C11: for a relative package path other than \<open>pwd\<close>, once the \<open>$GOPATH\<close>-relative
  expansion is found absolute, the path the scan uses is still the relative path as
  typed: the expansion went into a shadowing local and is discarded, so the package is
  looked up relative to the working directory.
\<close>

theorem resolve_package_discards_gopath:
  assumes "pp \<noteq> ''pwd''" and "\<not> is_abs pp" and "is_abs (expand pp)"
  shows "resolve_package pp g expand w = Inr pp"
  using assms by (simp add: resolve_package_def)

theorem resolve_package_discards_gopath_witness:
  "resolve_package ''github.com/u/app'' (Inr ''/home/u/work'') (\<lambda>p. ''/home/u/go/'' @ p)
     \<lparr>io_stdout = \<lparr>contents = [], room = None, err_msg = []\<rparr>,
      io_outfile = \<lparr>contents = [], room = None, err_msg = []\<rparr>\<rparr> = Inr ''github.com/u/app''"
  by (rule resolve_package_discards_gopath) (simp_all add: is_abs_def)

end
