(* ===== verification/Goimports.thy ===== *)
theory Goimports
  imports Driver
begin

text \<open>
  The post-processing hook of \<open>main\<close> (lines 290--304 of \<open>src/main.go\<close>) and
  \<open>findGoImports\<close> (325--344). \<open>exec.LookPath\<close> is a parameter \<open>lookpath\<close>
  returning the found path or the empty string; \<open>gopath\<close> is the value of
  \<open>$GOPATH\<close> (empty when unset, as \<open>os.ExpandEnv\<close> substitutes); \<open>goos\<close> is
  \<open>runtime.GOOS\<close>. The retry through \<open>goto tryAgain\<close> is a recursive call; since
  nothing bounds it, the function is a \<open>partial_function (option)\<close> and \<open>None\<close>
  means it never returns.
\<close>

subsection \<open>findGoImports\<close>

partial_function (option) find_goimports_from ::
  "(string \<Rightarrow> string) \<Rightarrow> string \<Rightarrow> string \<Rightarrow> string \<Rightarrow> string option" where
  "find_goimports_from lookpath gopath goos bin =
     (if lookpath bin \<noteq> [] then Some bin
      else if lookpath (gopath @ ''/bin/'' @ bin) \<noteq> [] then Some (lookpath (gopath @ ''/bin/'' @ bin))
      else if goos = ''windows'' then find_goimports_from lookpath gopath goos (bin @ ''.exe'')
      else Some [])"

definition find_goimports :: "(string \<Rightarrow> string) \<Rightarrow> string \<Rightarrow> string \<Rightarrow> string option" where
  "find_goimports lookpath gopath goos = find_goimports_from lookpath gopath goos ''goimports''"

subsection \<open>The hook\<close>

text \<open>
  \<open>exec.Command(goimports, "-w", outputFile.Name())\<close> for a file, and
  \<open>exec.Command(goimports, "-w")\<close> when the output is standard output.
\<close>

definition goimports_cmd :: "string \<Rightarrow> dest \<Rightarrow> string list" where
  "goimports_cmd bin dst = (case dst of ToStdout \<Rightarrow> [bin, ''-w''] | ToFile nm \<Rightarrow> [bin, ''-w'', nm])"

text \<open>
  \<open>run cmd c\<close> is \<open>cmd.Run()\<close> on a file holding \<open>c\<close>: its error, or the text
  \<open>goimports -w\<close> leaves in the file (imports added, code reformatted). What the
  external tool computes is a parameter; what the program does with it is modelled: with
  a file argument, success replaces the output file's contents (\<open>goimports\<close> writes
  only on success), failure is reported. With no file argument there is nothing for
  \<open>-w\<close> to rewrite, and \<open>run\<close> is not handed the output's text.
\<close>

definition post_process ::
  "string \<Rightarrow> dest \<Rightarrow> (string list \<Rightarrow> out_text \<Rightarrow> string + out_text) \<Rightarrow> io \<Rightarrow> io" where
  "post_process found dst run w =
     (if found \<noteq> [] then
        (case dst of
           ToStdout \<Rightarrow>
             (case run (goimports_cmd found dst) [] of
                Inl err \<Rightarrow> println w (''goimports: '' @ err @ NL)
              | Inr _ \<Rightarrow> w)
         | ToFile _ \<Rightarrow>
             (case run (goimports_cmd found dst) (contents (io_outfile w)) of
                Inl err \<Rightarrow> println w (''goimports: '' @ err @ NL)
              | Inr c' \<Rightarrow> w\<lparr>io_outfile := (io_outfile w)\<lparr>contents := c'\<rparr>\<rparr>))
      else println w (''Could not find goimports, you will have to handle imports yourself'' @ NL))"

declare find_goimports_def [gen_simps] goimports_cmd_def [gen_simps] post_process_def [gen_simps]

lemma find_goimports_from_found:
  "lookpath bin \<noteq> [] \<Longrightarrow> find_goimports_from lookpath gopath goos bin = Some bin"
  by (simp add: find_goimports_from.simps)

lemma find_goimports_from_retry:
  "lookpath bin = [] \<Longrightarrow> lookpath (gopath @ ''/bin/'' @ bin) = [] \<Longrightarrow> goos = ''windows'' \<Longrightarrow>
   find_goimports_from lookpath gopath goos bin = find_goimports_from lookpath gopath goos (bin @ ''.exe'')"
  by (subst find_goimports_from.simps) simp

lemma find_goimports_from_exe_found:
  assumes "goos = ''windows''" and "lookpath (bin @ concat (replicate k ''.exe'')) \<noteq> []"
  shows "\<exists>r. find_goimports_from lookpath gopath goos bin = Some r"
  using assms(2)
proof (induction k arbitrary: bin)
  case 0
  then show ?case by (simp add: find_goimports_from_found)
next
  case (Suc k)
  show ?case
  proof (cases "lookpath bin = [] \<and> lookpath (gopath @ ''/bin/'' @ bin) = []")
    case True
    from Suc.prems have "lookpath ((bin @ ''.exe'') @ concat (replicate k ''.exe'')) \<noteq> []"
      by (simp add: replicate_app_Cons_same)
    then have "\<exists>r. find_goimports_from lookpath gopath goos (bin @ ''.exe'') = Some r"
      by (rule Suc.IH)
    with True assms(1) show ?thesis by (simp add: find_goimports_from_retry)
  next
    case False
    then show ?thesis by (subst find_goimports_from.simps) auto
  qed
qed

text \<open>Off windows, at most two lookups and then a value.\<close>

lemma find_goimports_off_windows:
  assumes "goos \<noteq> ''windows''"
  shows "find_goimports lookpath gopath goos =
           Some (if lookpath ''goimports'' \<noteq> [] then ''goimports''
                 else lookpath (gopath @ ''/bin/goimports''))"
  using assms by (subst find_goimports_def, subst find_goimports_from.simps) auto

text \<open>
  On windows, with no name found anywhere, the \<open>goto\<close> retries forever: if the
  function returned, a returning run of the recursion would have a last call, and no
  call returns.
\<close>

lemma find_goimports_windows_none:
  assumes "goos = ''windows''" and "\<forall>b. lookpath b = []"
  shows "find_goimports lookpath gopath goos = None"
proof (rule ccontr)
  assume "find_goimports lookpath gopath goos \<noteq> None"
  then obtain r where ret: "find_goimports_from lookpath gopath goos ''goimports'' = Some r"
    by (auto simp: find_goimports_def)
  show False
  proof (rule find_goimports_from.raw_induct
      [where P = "\<lambda>lp gp os b r. lp = lookpath \<and> os = goos \<longrightarrow> False", OF _ ret, THEN mp])
    show "lookpath = lookpath \<and> goos = goos" by simp
  next
    fix f lp gp os b r
    assume IH: "\<And>lp gp os b r. f lp gp os b = Some r \<Longrightarrow> lp = lookpath \<and> os = goos \<longrightarrow> False"
      and eq: "(if lp b \<noteq> [] then Some b
      else if lp (gp @ ''/bin/'' @ b) \<noteq> [] then Some (lp (gp @ ''/bin/'' @ b))
      else if os = ''windows'' then f lp gp os (b @ ''.exe'')
      else Some []) = Some r"
    show "lp = lookpath \<and> os = goos \<longrightarrow> False"
    proof
      assume h: "lp = lookpath \<and> os = goos"
      with assms eq have "f lp gp os (b @ ''.exe'') = Some r" by simp
      with IH h show False by blast
    qed
  qed
qed

subsection \<open>Properties\<close>

text \<open>
  C21: on windows \<open>findGoImports\<close> does return once some name
  \<open>goimports\<close>, \<open>goimports.exe\<close>, \<open>goimports.exe.exe\<close>, \<dots> is on the search path.
\<close>

theorem find_goimports_windows_found:
  assumes "goos = ''windows''" and "lookpath (''goimports'' @ concat (replicate k ''.exe'')) \<noteq> []"
  shows "\<exists>r. find_goimports lookpath gopath goos = Some r"
  using find_goimports_from_exe_found [of goos lookpath "''goimports''" k gopath] assms
  by (simp add: find_goimports_def)

theorem find_goimports_windows_found_witness:
  "find_goimports (\<lambda>b. if b = ''goimports.exe'' then ''C:/go/bin/goimports.exe'' else []) [] ''windows'' =
   Some ''goimports.exe''"
proof -
  have "\<exists>r. find_goimports (\<lambda>b. if b = ''goimports.exe'' then ''C:/go/bin/goimports.exe'' else [])
              [] ''windows'' = Some r"
    by (rule find_goimports_windows_found [where k = 1]) simp_all
  then show ?thesis by (simp add: find_goimports_def find_goimports_from.simps)
qed

end
