(* ===== verification/Main_Program.thy ===== *)
theory Main_Program
  imports Config Goimports
begin

text \<open>
  \<open>main\<close> of \<open>src/main.go\<close> (lines 137--305) as one function of the environment
  and the initial output state. The environment fixes what the libraries return: the
  flag values and the outcome of flag parsing, \<open>os.OpenFile\<close>, \<open>os.Getwd\<close>, the
  \<open>$GOPATH\<close> expansion, \<open>regexp.Compile\<close> (its error or the compiled
  \<open>MatchString\<close>), \<open>parser.ParseDir\<close> (its error or the packages, for a path and a
  file filter), \<open>exec.LookPath\<close>, \<open>$GOPATH\<close>, \<open>runtime.GOOS\<close> and the result of
  running the formatter. The result is \<open>None\<close> when \<open>main\<close> never returns, else the
  halt with the state at that moment, or the final state.
\<close>

record env =
  flags :: flag_outcome
  flag_output :: string
  flag_package :: string
  arg0 :: string
  open_file :: "string \<Rightarrow> string option"
  getwd :: "string + string"
  expand_gopath_join :: "string \<Rightarrow> string"
  compile_regex :: "string \<Rightarrow> string + (ident \<Rightarrow> bool)"
  parse_dir_at :: "string \<Rightarrow> (string \<Rightarrow> bool) \<Rightarrow> string + package list"
  lookpath :: "string \<Rightarrow> string"
  gopath :: string
  goos :: string
  run_cmd :: "string list \<Rightarrow> out_text \<Rightarrow> string + out_text"

type_synonym run_result = "((halt \<times> io) + io) option"

text \<open>
  The scan and what follows it, once the configuration is known: lines 189--304.
\<close>

definition scan_and_generate :: "env \<Rightarrow> (ident \<Rightarrow> bool) \<Rightarrow> dest \<Rightarrow> string \<Rightarrow> io \<Rightarrow> run_result" where
  "scan_and_generate e flt dst pp w =
     (case parse_dir_at e pp files_to_ignore of
        Inl err \<Rightarrow> Some (Inl (ExitStatus 1, println w (''error parsing package: '' @ err @ NL)))
      | Inr pkgs \<Rightarrow>
          (case gen_packages flt dst w pkgs of
             Inl h \<Rightarrow> Some (Inl h)
           | Inr w' \<Rightarrow>
               map_option (\<lambda>found. Inr (post_process found dst (run_cmd e) w'))
                 (find_goimports (lookpath e) (gopath e) (goos e))))"

definition main_prog :: "env \<Rightarrow> io \<Rightarrow> run_result" where
  "main_prog e w =
     (case check_flags (flags e) w of
        Inl h \<Rightarrow> Some (Inl h)
      | Inr _ \<Rightarrow>
          (let input = input_pattern (arg0 e)
           in case open_output (flag_output e) (open_file e) w of
                Inl h \<Rightarrow> Some (Inl h)
              | Inr dst \<Rightarrow>
                  (case resolve_package (flag_package e) (getwd e) (expand_gopath_join e) w of
                     Inl h \<Rightarrow> Some (Inl h)
                   | Inr pp \<Rightarrow>
                       (case compile_regex e input of
                          Inl err \<Rightarrow> Some (Inl (ExitStatus 1, println w (''bad regex: '' @ err @ NL)))
                        | Inr flt \<Rightarrow> scan_and_generate e flt dst pp w))))"

text \<open>
  The configuration \<open>main\<close> reaches when every set-up step succeeds: the destination,
  the package path and the compiled filter.
\<close>

definition setup_ok :: "env \<Rightarrow> io \<Rightarrow> dest \<Rightarrow> string \<Rightarrow> (ident \<Rightarrow> bool) \<Rightarrow> bool" where
  "setup_ok e w dst pp flt \<longleftrightarrow>
     flags e = FlagsOk \<and> open_output (flag_output e) (open_file e) w = Inr dst \<and>
     resolve_package (flag_package e) (getwd e) (expand_gopath_join e) w = Inr pp \<and>
     compile_regex e (input_pattern (arg0 e)) = Inr flt"

text \<open>Sample environment: \<open>testGen -o gen.go ^Add\<close> in \<open>/src/app\<close> on linux.\<close>

definition sample_env :: env where
  "sample_env =
     \<lparr>flags = FlagsOk, flag_output = ''gen.go'', flag_package = ''pwd'', arg0 = ''^Add'',
      open_file = (\<lambda>_. None), getwd = Inr ''/src/app'', expand_gopath_join = (\<lambda>p. ''/go/'' @ p),
      compile_regex = (\<lambda>_. Inr (\<lambda>n. take 3 n = ''Add'')),
      parse_dir_at = (\<lambda>_ _. Inr [sample_pkg]),
      lookpath = (\<lambda>_. []), gopath = [], goos = ''linux'', run_cmd = (\<lambda>_ c. Inr c)\<rparr>"

definition empty_io :: io where
  "empty_io = \<lparr>io_stdout = \<lparr>contents = [], room = None, err_msg = []\<rparr>,
               io_outfile = \<lparr>contents = [], room = None, err_msg = []\<rparr>\<rparr>"

declare scan_and_generate_def [gen_simps] main_prog_def [gen_simps]

lemma main_prog_setup_ok:
  "setup_ok e w dst pp flt \<Longrightarrow> main_prog e w = scan_and_generate e flt dst pp w"
  by (simp add: setup_ok_def main_prog_def check_flags_def)

text \<open>
  What the output file holds after the hook, off windows, for an output file \<open>nm\<close>
  holding \<open>c\<close>: the formatter's rewrite of \<open>c\<close> when \<open>findGoImports\<close> finds it
  and it succeeds, else \<open>c\<close> itself.
\<close>

lemma post_process_file_contents:
  "contents (io_outfile (post_process g (ToFile nm) run w)) =
     (if g \<noteq> [] then (case run [g, ''-w'', nm] (contents (io_outfile w)) of
                        Inl _ \<Rightarrow> contents (io_outfile w) | Inr c' \<Rightarrow> c')
      else contents (io_outfile w))"
  by (simp add: post_process_def goimports_cmd_def println_def split: sum.split)

subsection \<open>Properties\<close>

text \<open>
  C4: end to end: when flag parsing, opening the output file, resolving the package path
  and compiling the pattern succeed, the package parses, the output device accepts every
  write and the system is not windows, \<open>main\<close> returns normally; the generation
  loop leaves in the output file exactly what it held before followed by the scaffolds the
  contract asks for, and the file ends as that text when no \<open>goimports\<close> is found
  or it fails, and as what \<open>goimports -w\<close> makes of exactly that text otherwise.
\<close>

theorem main_end_to_end:
  assumes "setup_ok e w (ToFile nm) pp flt" and "parse_dir_at e pp files_to_ignore = Inr pkgs"
    and "pkgs_wf pkgs" and "room (io_outfile w) = None" and "goos e \<noteq> ''windows''"
  shows "\<exists>w'. main_prog e w = Some (Inr w') \<and>
              (let c = contents (io_outfile w) @ expected_run flt pkgs;
                   g = (if lookpath e ''goimports'' \<noteq> [] then ''goimports''
                        else lookpath e (gopath e @ ''/bin/goimports''))
               in contents (io_outfile w') =
                    (if g \<noteq> [] then (case run_cmd e [g, ''-w'', nm] c of Inl _ \<Rightarrow> c | Inr c' \<Rightarrow> c')
                     else c))"
proof -
  obtain w1 where g: "gen_packages flt (ToFile nm) w pkgs = Inr w1"
    and o: "io_outfile w1 = (io_outfile w)\<lparr>contents := contents (io_outfile w) @ expected_run flt pkgs\<rparr>"
    using gen_packages_unbounded [OF assms(4,3), of flt nm] by blast
  define gi where "gi = (if lookpath e ''goimports'' \<noteq> [] then ''goimports''
                         else lookpath e (gopath e @ ''/bin/goimports''))"
  have "main_prog e w = Some (Inr (post_process gi (ToFile nm) (run_cmd e) w1))"
    using assms(2,5) g
    by (simp add: main_prog_setup_ok [OF assms(1)] scan_and_generate_def find_goimports_off_windows gi_def)
  moreover have "contents (io_outfile (post_process gi (ToFile nm) (run_cmd e) w1)) =
      (let c = contents (io_outfile w) @ expected_run flt pkgs
       in if gi \<noteq> [] then (case run_cmd e [gi, ''-w'', nm] c of Inl _ \<Rightarrow> c | Inr c' \<Rightarrow> c') else c)"
  proof -
    from o have "contents (io_outfile w1) = contents (io_outfile w) @ expected_run flt pkgs" by simp
    then show ?thesis by (simp add: post_process_file_contents Let_def split: sum.split)
  qed
  ultimately show ?thesis by (auto simp: gi_def Let_def)
qed

text \<open>
  C20: except on windows, \<open>main\<close> always returns: every path through it ends, with an
  exit status or normally.
\<close>

theorem main_terminates_off_windows:
  "goos e \<noteq> ''windows'' \<Longrightarrow> \<exists>r. main_prog e w = Some r"
  by (simp add: main_prog_def scan_and_generate_def find_goimports_off_windows Let_def
      split: sum.split)

text \<open>
  C10: on windows without any \<open>goimports\<close>, \<open>main\<close> never returns normally: it
  stops with an error before the hook or loops forever in \<open>findGoImports\<close>, so the
  "handle imports yourself" advisory of the spec is never printed there.
\<close>

theorem main_windows_never_finishes:
  assumes "goos e = ''windows''" and "\<forall>b. lookpath e b = []"
  shows "main_prog e w \<noteq> Some (Inr w')"
  using find_goimports_windows_none [OF assms, of "gopath e"]
  by (simp add: main_prog_def scan_and_generate_def Let_def split: sum.split)

text \<open>
  C22: a pattern that does not compile ends \<open>main\<close> with status 1 and the message
  \<open>bad regex: \<dots>\<close> before any package is parsed: nothing is written to the output.
\<close>

theorem main_bad_regex:
  assumes "flags e = FlagsOk" and "open_output (flag_output e) (open_file e) w = Inr dst"
    and "resolve_package (flag_package e) (getwd e) (expand_gopath_join e) w = Inr pp"
    and "compile_regex e (input_pattern (arg0 e)) = Inl err"
  shows "main_prog e w = Some (Inl (ExitStatus 1, println w (''bad regex: '' @ err @ NL)))"
  using assms by (simp add: main_prog_def check_flags_def)

theorem main_end_to_end_witness:
  "\<exists>w'. main_prog sample_env empty_io = Some (Inr w') \<and>
        contents (io_outfile w') = render (FuncDesc (func_of_decl sample_add_fd))"
proof -
  have s: "setup_ok sample_env empty_io (ToFile ''gen.go'') ''/src/app'' (\<lambda>n. take 3 n = ''Add'')"
    by (simp add: setup_ok_def sample_env_def open_output_def resolve_package_def input_pattern_def)
  have e: "expected_run (\<lambda>n. take 3 n = ''Add'') [sample_pkg] = render (FuncDesc (func_of_decl sample_add_fd))"
    by (simp add: expected_run_def expected_output_def expected_scaffold_def sample_pkg_def
        sample_add_obj_def sample_add_fd_def classify_def package_contains_def)
  have "pkgs_wf [sample_pkg]"
    by (simp add: pkgs_wf_def sample_pkg_def sample_add_obj_def sample_add_fd_def fun_obj_ok_def)
  then show ?thesis
    using main_end_to_end [OF s, of "[sample_pkg]"] e
    by (simp add: sample_env_def empty_io_def)
qed

theorem main_windows_never_finishes_witness:
  "setup_ok (sample_env\<lparr>goos := ''windows''\<rparr>) empty_io (ToFile ''gen.go'') ''/src/app'' (\<lambda>n. take 3 n = ''Add'') \<and>
   (\<forall>w'. main_prog (sample_env\<lparr>goos := ''windows''\<rparr>) empty_io \<noteq> Some (Inr w'))"
proof
  show "setup_ok (sample_env\<lparr>goos := ''windows''\<rparr>) empty_io (ToFile ''gen.go'') ''/src/app'' (\<lambda>n. take 3 n = ''Add'')"
    by (simp add: setup_ok_def sample_env_def open_output_def resolve_package_def input_pattern_def)
  show "\<forall>w'. main_prog (sample_env\<lparr>goos := ''windows''\<rparr>) empty_io \<noteq> Some (Inr w')"
  proof
    fix w'
    show "main_prog (sample_env\<lparr>goos := ''windows''\<rparr>) empty_io \<noteq> Some (Inr w')"
      by (rule main_windows_never_finishes) (simp_all add: sample_env_def)
  qed
qed

theorem main_terminates_off_windows_witness: "\<exists>r. main_prog sample_env empty_io = Some r"
  by (rule main_terminates_off_windows) (simp add: sample_env_def)

theorem main_bad_regex_witness:
  "main_prog (sample_env\<lparr>compile_regex := (\<lambda>_. Inl ''missing closing )'')\<rparr>) empty_io =
   Some (Inl (ExitStatus 1, println empty_io (''bad regex: missing closing )'' @ NL)))"
  using main_bad_regex [where e = "sample_env\<lparr>compile_regex := (\<lambda>_. Inl ''missing closing )'')\<rparr>"
      and w = empty_io and dst = "ToFile ''gen.go''" and pp = "''/src/app''" and err = "''missing closing )''"]
  by (simp add: sample_env_def open_output_def resolve_package_def input_pattern_def)

end
