(* ===== verification/Spec2Isabelle.thy ===== *)
theory Spec2Isabelle
  imports Main_Program
begin

text \<open>
  \<^bold>\<open>A verification development for go-test-gen.\<close>
  The program (\<open>src/main.go\<close>) scans the Go files of a package directory, finds
  top-level functions matching a name pattern that have no \<open>Test<Name>\<close> sibling, at
  least one parameter and at least one result, and appends a table-driven test
  skeleton for each to an output stream; \<open>src/tests_test.go\<close> is such output.

  \<^bold>\<open>Parts and theories.\<close>
  \<^item> \<open>Go_Prelude\<close>: shared vocabulary: the collection \<open>gen_simps\<close> of evaluation
    rules, template characters, \<open>strings.ToLower\<close> on ASCII (\<open>to_lower\<close>),
    \<open>strings.HasSuffix\<close>, the separator range of \<open>text/template\<close>
    (\<open>comma_range\<close>), and how a process stops (\<open>halt\<close>: \<open>os.Exit\<close> or a panic).
  \<^item> \<open>Go_Ast\<close>: the \<open>go/ast\<close> data the program reads (type expressions, fields,
    \<open>FuncDecl\<close>, scope objects, files, packages) and three library functions as
    environment definitions, not code of the repository: \<open>num_fields\<close>
    (\<open>FieldList.NumFields\<close>), \<open>resolve_scope\<close> (how \<open>go/parser\<close> fills a
    file scope: functions without receiver and not named \<open>init\<close>, specs, never
    \<open>_\<close>, first declaration wins) and \<open>parse_dir\<close> (which files \<open>ParseDir\<close>
    reads). \<open>scope_wf\<close> is what every parser-built scope satisfies
    (\<open>foldl_declare_top_wf\<close>).
  \<^item> \<open>Type_Namer\<close>: \<open>typename\<close> (main.go 346--358) returning the name and the text
    its default branch prints.
  \<^item> \<open>Signature\<close>: \<open>Param\<close>/\<open>Func\<close>/\<open>Method\<close> as records (\<open>go_method\<close> for
    \<open>Method\<close>), the parameter loop, the result loop and the receiver literal of
    \<open>main\<close> (228--277) as \<open>extract_params\<close>, \<open>extract_results\<close>,
    \<open>extract_receiver\<close>, \<open>extract_decl\<close>, with closed forms of each loop.
  \<^item> \<open>Output_Stream\<close>: the output as an append-only stream on a device that accepts
    a bounded number of further bytes (\<open>room\<close>), a write that does not fit keeps
    what fits and fails (\<open>write_stream\<close>); \<open>write_chunks\<close> is the sequence of
    writes a template performs, equal to one write of their concatenation.
  \<^item> \<open>Renderer\<close>: both templates (44--121) as the writes \<open>text/template\<close> performs
    (\<open>func_template_nodes\<close>, \<open>method_template_nodes\<close>), \<open>execute_template\<close>,
    \<open>render\<close>, and the layout they produce (\<open>scaffold_text\<close>).
  \<^item> \<open>Eligibility\<close>: the guard chain of the object loop (199--226) as
    \<open>classify\<close> returning a \<open>verdict\<close>, \<open>packageContains\<close>, \<open>filesToIgnore\<close>.
  \<^item> \<open>Driver\<close>: the loop over packages, files and scope objects (196--288) as
    \<open>gen_packages\<close>/\<open>gen_files\<close>/\<open>gen_objects\<close>/\<open>gen_object\<close>/\<open>gen_candidate\<close>
    on an \<open>io\<close> state of two streams (standard output and the output file; with
    \<open>ToStdout\<close> both are one stream), returning the state or the halt with the state
    at that moment.
  \<^item> \<open>Config\<close>: the set-up of \<open>main\<close> (137--180): what it does with the outcome
    of flag parsing (\<open>check_flags\<close>), the default pattern \<open>`\.*`\<close>
    (\<open>input_pattern\<close>), opening the output (\<open>open_output\<close>) and resolving the
    package path (\<open>resolve_package\<close>, whose \<open>$GOPATH\<close> expansion goes into a
    shadowing local).
  \<^item> \<open>Goimports\<close>: \<open>findGoImports\<close> (325--344) as a \<open>partial_function (option)\<close>
    where \<open>goto tryAgain\<close> is a recursive call and \<open>None\<close> is not returning, and the
    formatter hook (290--304) as \<open>post_process\<close>: \<open>goimports -w\<close> on the output
    file either fails (reported on standard output) or replaces the file's text by its
    rewrite, which is a parameter of the model.
  \<^item> \<open>Main_Program\<close>: \<open>main\<close> (137--305) as \<open>main_prog\<close>, a function of an
    environment record \<open>env\<close> (the flag values, what \<open>os.OpenFile\<close>, \<open>os.Getwd\<close>,
    \<open>os.ExpandEnv\<close>, \<open>regexp.Compile\<close>, \<open>parser.ParseDir\<close>, \<open>exec.LookPath\<close>,
    \<open>runtime.GOOS\<close> and the formatter return) and the initial \<open>io\<close> state; the
    result is \<open>None\<close> when \<open>main\<close> never returns, otherwise the halt or the final
    state. Its parts compose through the \<open>io\<close> state and the sum type of halts.
  \<^item> This theory: the second run over a package that now contains the generated
    file, the golden outputs of \<open>src/tests_test.go\<close>, and properties spanning the
    components.

  \<^bold>\<open>What the lemmas show.\<close>
  The guard chain admits exactly the declarations the spec's rules name, except that
  the test-name lookup spans the whole parsed package (\<open>classify_candidate_iff\<close>).
  A run with an accepting output file writes exactly one scaffold per eligible function
  in traversal order (\<open>gen_packages_complete\<close>); a failing device leaves a prefix and
  exit status 1 (\<open>gen_packages_write_failure\<close>); the whole of \<open>main\<close> then returns,
  handing the formatter exactly the old text followed by these scaffolds, and the file
  ends as that text, or as the formatter's rewrite of it when one is found and succeeds
  (\<open>main_end_to_end\<close>). The
  loops preserve order and count (\<open>extract_params_order\<close>,
  \<open>extract_results_num_fields\<close>), the templates lay the scaffold out as specified
  (\<open>render_func_layout\<close>); as a check of the model, they reproduce the five
  checked-in tests (\<open>render_matches_tests_test\<close>). \<open>main\<close> returns on every input off windows
  (\<open>main_terminates_off_windows\<close>), and on windows once some \<open>goimports\<close> name is
  found (\<open>find_goimports_windows_found\<close>). The divergences from the spec are theorems
  too: methods never reach the method template because the parser never puts them in a
  scope, and that template ignores the receiver anyway; unnamed parameters vanish;
  unnamed results whose type names agree up to case collide
  (\<open>unnamed_results_collide\<close>); unsupported types give an empty name and a
  diagnostic that lands in the generated code when it goes to standard output
  (\<open>stdout_output_interleaves\<close>); an unnamed receiver would panic; a
  \<open>$GOPATH\<close>-relative package path is used unexpanded
  (\<open>resolve_package_discards_gopath\<close>); on windows without \<open>goimports\<close> the
  program never finishes (\<open>main_windows_never_finishes\<close>); the second run is
  idempotent only when the output file is not a \<open>_test.go\<close> file.

  \<^bold>\<open>Choices.\<close> Go maps (\<open>packages\<close>, \<open>pkg.Files\<close>, \<open>Scope.Objects\<close>) are lists
  standing for one iteration order; every theorem holds for all lists. The name pattern
  is a parameter \<open>flt :: ident \<Rightarrow> bool\<close> (its \<open>MatchString\<close>), and
  \<open>regexp.Compile\<close> a field of \<open>env\<close>. Characters are bytes, \<open>to_lower\<close> lowers
  ASCII only. The object loops are structural recursion over finite lists, so they need
  no fuel; the only loop that may run forever, the \<open>goto\<close> of \<open>findGoImports\<close>, is a
  \<open>partial_function (option)\<close>, so its termination is proved as a value
  \<open>Some\<close> and its divergence as \<open>None\<close> (by its fixpoint induction rule).

  \<^bold>\<open>Not modelled.\<close> The libraries: the flag package (its outcome is a parameter),
  \<open>go/parser\<close> beyond the scope rule above, the regexp engine, \<open>text/template\<close>
  beyond the write sequence it performs, and the rewrite the external \<open>goimports\<close>
  computes (a parameter: the model fixes only when it is applied and to what). Deferred close of the output file and the
  flag package's usage text on standard error are not observable in the model.
\<close>

section \<open>The second run\<close>

text \<open>
  The declaration a scaffold's first line \<open>func Test<Name>(t *testing.T) {\<close>
  introduces, as the parser sees it when the output file is scanned again.
\<close>

definition scaffold_fd :: "ident \<Rightarrow> func_decl" where
  "scaffold_fd nm = \<lparr>fd_recv = None, fd_name = ''Test'' @ nm,
              fd_type = \<lparr>ft_params = [\<lparr>field_names = [''t''],
                                         field_type = StarExpr (SelectorExpr (Ident ''testing'') ''T'')\<rparr>],
                         ft_results = None\<rparr>\<rparr>"

definition scaffold_decl :: "ident \<Rightarrow> top_decl" where
  "scaffold_decl nm = FuncTop (scaffold_fd nm)"

text \<open>The names the first run scaffolds, in traversal order.\<close>

definition scaffolded :: "(ident \<Rightarrow> bool) \<Rightarrow> package \<Rightarrow> ident list" where
  "scaffolded flt pkg =
     concat (map (\<lambda>f. concat (map (\<lambda>ob. case classify flt pkg ob of Candidate fd \<Rightarrow> [fd_name fd] | _ \<Rightarrow> [])
                                   (file_objects f))) (pkg_files pkg))"

text \<open>The output file after the first run, as a file of the package directory.\<close>

definition generated_file :: "(ident \<Rightarrow> bool) \<Rightarrow> package \<Rightarrow> string \<Rightarrow> go_file" where
  "generated_file flt pkg outname =
     \<lparr>file_name = outname, file_objects = resolve_scope (map scaffold_decl (scaffolded flt pkg))\<rparr>"

text \<open>The package the second run parses: \<open>ParseDir\<close> with \<open>filesToIgnore\<close> over the
  original files and the output file.\<close>

definition second_run_pkg :: "(ident \<Rightarrow> bool) \<Rightarrow> package \<Rightarrow> string \<Rightarrow> package" where
  "second_run_pkg flt pkg outname =
     pkg\<lparr>pkg_files := parse_dir files_to_ignore (pkg_files pkg @ [generated_file flt pkg outname])\<rparr>"

section \<open>Golden outputs\<close>

text \<open>\<open>TestAdd\<close>, lines 5--40 of \<open>src/tests_test.go\<close>.\<close>

definition golden_TestAdd :: out_text where
  "golden_TestAdd =
     ''func TestAdd(t *testing.T) {'' @ NL @
     TB @ ''type ('' @ NL @
     TB2 @ ''Input struct {'' @ NL @
     TB3 @ ''x int'' @ NL @
     TB3 @ ''y int'' @ NL @
     TB2 @ ''}'' @ NL @
     NL @
     TB2 @ ''Output struct {'' @ NL @
     TB3 @ ''int int'' @ NL @
     TB2 @ ''}'' @ NL @
     NL @
     TB2 @ ''Case struct {'' @ NL @
     TB3 @ ''Name   string'' @ NL @
     TB3 @ ''In     Input'' @ NL @
     TB3 @ ''Expect Output'' @ NL @
     TB2 @ ''}'' @ NL @
     TB @ '')'' @ NL @
     NL @
     TB @ ''// TODO create test cases'' @ NL @
     TB @ ''cases := []Case{}'' @ NL @
     NL @
     TB @ ''tester := func(c Case) func(*testing.T) {'' @ NL @
     TB2 @ ''return func(t *testing.T) {'' @ NL @
     TB3 @ ''var actual Output'' @ NL @
     TB3 @ ''actual.int = Add(c.In.x, c.In.y)'' @ NL @
     NL @
     TB3 @ ''if actual != c.Expect {'' @ NL @
     TB4 @ ''t.Errorf('' @ DQ @ ''expected %+v, actual: %+v'' @ BSL @ ''n'' @ DQ @ '', c.Expect, actual)'' @ NL @
     TB3 @ ''}'' @ NL @
     TB2 @ ''}'' @ NL @
     TB @ ''}'' @ NL @
     NL @
     TB @ ''for _, c := range cases {'' @ NL @
     TB2 @ ''t.Run(c.Name, tester(c))'' @ NL @
     TB @ ''}'' @ NL @
     ''}'' @ NL"

text \<open>\<open>TestAdd4\<close>, lines 117--155 of \<open>src/tests_test.go\<close>.\<close>

definition golden_TestAdd4 :: out_text where
  "golden_TestAdd4 =
     ''func TestAdd4(t *testing.T) {'' @ NL @
     TB @ ''type ('' @ NL @
     TB2 @ ''Input struct {'' @ NL @
     TB3 @ ''x int'' @ NL @
     TB3 @ ''y int'' @ NL @
     TB3 @ ''z int'' @ NL @
     TB3 @ ''w int'' @ NL @
     TB2 @ ''}'' @ NL @
     NL @
     TB2 @ ''Output struct {'' @ NL @
     TB3 @ ''a int'' @ NL @
     TB3 @ ''b int'' @ NL @
     TB2 @ ''}'' @ NL @
     NL @
     TB2 @ ''Case struct {'' @ NL @
     TB3 @ ''Name   string'' @ NL @
     TB3 @ ''In     Input'' @ NL @
     TB3 @ ''Expect Output'' @ NL @
     TB2 @ ''}'' @ NL @
     TB @ '')'' @ NL @
     NL @
     TB @ ''// TODO create test cases'' @ NL @
     TB @ ''cases := []Case{}'' @ NL @
     NL @
     TB @ ''tester := func(c Case) func(*testing.T) {'' @ NL @
     TB2 @ ''return func(t *testing.T) {'' @ NL @
     TB3 @ ''var actual Output'' @ NL @
     TB3 @ ''actual.a, actual.b = Add4(c.In.x, c.In.y, c.In.z, c.In.w)'' @ NL @
     NL @
     TB3 @ ''if actual != c.Expect {'' @ NL @
     TB4 @ ''t.Errorf('' @ DQ @ ''expected %+v, actual: %+v'' @ BSL @ ''n'' @ DQ @ '', c.Expect, actual)'' @ NL @
     TB3 @ ''}'' @ NL @
     TB2 @ ''}'' @ NL @
     TB @ ''}'' @ NL @
     NL @
     TB @ ''for _, c := range cases {'' @ NL @
     TB2 @ ''t.Run(c.Name, tester(c))'' @ NL @
     TB @ ''}'' @ NL @
     ''}'' @ NL"

text \<open>\<open>TestAdd2\<close>, lines 42--77 of \<open>src/tests_test.go\<close>.\<close>

definition golden_TestAdd2 :: out_text where
  "golden_TestAdd2 =
     ''func TestAdd2(t *testing.T) {'' @ NL @
     TB @ ''type ('' @ NL @
     TB2 @ ''Input struct {'' @ NL @
     TB3 @ ''x int'' @ NL @
     TB3 @ ''y int'' @ NL @
     TB2 @ ''}'' @ NL @
     NL @
     TB2 @ ''Output struct {'' @ NL @
     TB3 @ ''int int'' @ NL @
     TB2 @ ''}'' @ NL @
     NL @
     TB2 @ ''Case struct {'' @ NL @
     TB3 @ ''Name   string'' @ NL @
     TB3 @ ''In     Input'' @ NL @
     TB3 @ ''Expect Output'' @ NL @
     TB2 @ ''}'' @ NL @
     TB @ '')'' @ NL @
     NL @
     TB @ ''// TODO create test cases'' @ NL @
     TB @ ''cases := []Case{}'' @ NL @
     NL @
     TB @ ''tester := func(c Case) func(*testing.T) {'' @ NL @
     TB2 @ ''return func(t *testing.T) {'' @ NL @
     TB3 @ ''var actual Output'' @ NL @
     TB3 @ ''actual.int = Add2(c.In.x, c.In.y)'' @ NL @
     NL @
     TB3 @ ''if actual != c.Expect {'' @ NL @
     TB4 @ ''t.Errorf('' @ DQ @ ''expected %+v, actual: %+v'' @ BSL @ ''n'' @ DQ @ '', c.Expect, actual)'' @ NL @
     TB3 @ ''}'' @ NL @
     TB2 @ ''}'' @ NL @
     TB @ ''}'' @ NL @
     NL @
     TB @ ''for _, c := range cases {'' @ NL @
     TB2 @ ''t.Run(c.Name, tester(c))'' @ NL @
     TB @ ''}'' @ NL @
     ''}'' @ NL"

text \<open>\<open>TestAdd3\<close>, lines 79--115 of \<open>src/tests_test.go\<close>.\<close>

definition golden_TestAdd3 :: out_text where
  "golden_TestAdd3 =
     ''func TestAdd3(t *testing.T) {'' @ NL @
     TB @ ''type ('' @ NL @
     TB2 @ ''Input struct {'' @ NL @
     TB3 @ ''x int'' @ NL @
     TB3 @ ''y int'' @ NL @
     TB3 @ ''z int'' @ NL @
     TB2 @ ''}'' @ NL @
     NL @
     TB2 @ ''Output struct {'' @ NL @
     TB3 @ ''r int'' @ NL @
     TB2 @ ''}'' @ NL @
     NL @
     TB2 @ ''Case struct {'' @ NL @
     TB3 @ ''Name   string'' @ NL @
     TB3 @ ''In     Input'' @ NL @
     TB3 @ ''Expect Output'' @ NL @
     TB2 @ ''}'' @ NL @
     TB @ '')'' @ NL @
     NL @
     TB @ ''// TODO create test cases'' @ NL @
     TB @ ''cases := []Case{}'' @ NL @
     NL @
     TB @ ''tester := func(c Case) func(*testing.T) {'' @ NL @
     TB2 @ ''return func(t *testing.T) {'' @ NL @
     TB3 @ ''var actual Output'' @ NL @
     TB3 @ ''actual.r = Add3(c.In.x, c.In.y, c.In.z)'' @ NL @
     NL @
     TB3 @ ''if actual != c.Expect {'' @ NL @
     TB4 @ ''t.Errorf('' @ DQ @ ''expected %+v, actual: %+v'' @ BSL @ ''n'' @ DQ @ '', c.Expect, actual)'' @ NL @
     TB3 @ ''}'' @ NL @
     TB2 @ ''}'' @ NL @
     TB @ ''}'' @ NL @
     NL @
     TB @ ''for _, c := range cases {'' @ NL @
     TB2 @ ''t.Run(c.Name, tester(c))'' @ NL @
     TB @ ''}'' @ NL @
     ''}'' @ NL"

text \<open>\<open>TestAdd42\<close>, lines 157--195 of \<open>src/tests_test.go\<close>, the last line of the file, which has no final newline.\<close>

definition golden_TestAdd42 :: out_text where
  "golden_TestAdd42 =
     ''func TestAdd42(t *testing.T) {'' @ NL @
     TB @ ''type ('' @ NL @
     TB2 @ ''Input struct {'' @ NL @
     TB3 @ ''x int'' @ NL @
     TB3 @ ''y int'' @ NL @
     TB3 @ ''z int'' @ NL @
     TB3 @ ''w int'' @ NL @
     TB2 @ ''}'' @ NL @
     NL @
     TB2 @ ''Output struct {'' @ NL @
     TB3 @ ''a int'' @ NL @
     TB3 @ ''b int'' @ NL @
     TB2 @ ''}'' @ NL @
     NL @
     TB2 @ ''Case struct {'' @ NL @
     TB3 @ ''Name   string'' @ NL @
     TB3 @ ''In     Input'' @ NL @
     TB3 @ ''Expect Output'' @ NL @
     TB2 @ ''}'' @ NL @
     TB @ '')'' @ NL @
     NL @
     TB @ ''// TODO create test cases'' @ NL @
     TB @ ''cases := []Case{}'' @ NL @
     NL @
     TB @ ''tester := func(c Case) func(*testing.T) {'' @ NL @
     TB2 @ ''return func(t *testing.T) {'' @ NL @
     TB3 @ ''var actual Output'' @ NL @
     TB3 @ ''actual.a, actual.b = Add42(c.In.x, c.In.y, c.In.z, c.In.w)'' @ NL @
     NL @
     TB3 @ ''if actual != c.Expect {'' @ NL @
     TB4 @ ''t.Errorf('' @ DQ @ ''expected %+v, actual: %+v'' @ BSL @ ''n'' @ DQ @ '', c.Expect, actual)'' @ NL @
     TB3 @ ''}'' @ NL @
     TB2 @ ''}'' @ NL @
     TB @ ''}'' @ NL @
     NL @
     TB @ ''for _, c := range cases {'' @ NL @
     TB2 @ ''t.Run(c.Name, tester(c))'' @ NL @
     TB @ ''}'' @ NL @
     ''}''"

text \<open>\<open>func Add4(x, y, z, w int) (a, b int)\<close>.\<close>

definition sample_add4_fd :: func_decl where
  "sample_add4_fd =
     \<lparr>fd_recv = None, fd_name = ''Add4'',
      fd_type = \<lparr>ft_params = [\<lparr>field_names = [''x'', ''y'', ''z'', ''w''], field_type = Ident ''int''\<rparr>],
                 ft_results = Some [\<lparr>field_names = [''a'', ''b''], field_type = Ident ''int''\<rparr>]\<rparr>\<rparr>"

text \<open>\<open>func Add2(x, y int) int\<close>, \<open>func Add3(x, y, z int) (r int)\<close>,
  \<open>func Add42(x, y, z, w int) (a, b int)\<close>: the signatures the other scaffolds imply.\<close>

definition sample_add2_fd :: func_decl where
  "sample_add2_fd =
     \<lparr>fd_recv = None, fd_name = ''Add2'',
      fd_type = \<lparr>ft_params = [\<lparr>field_names = [''x'', ''y''], field_type = Ident ''int''\<rparr>],
                 ft_results = Some [\<lparr>field_names = [], field_type = Ident ''int''\<rparr>]\<rparr>\<rparr>"

definition sample_add3_fd :: func_decl where
  "sample_add3_fd =
     \<lparr>fd_recv = None, fd_name = ''Add3'',
      fd_type = \<lparr>ft_params = [\<lparr>field_names = [''x'', ''y'', ''z''], field_type = Ident ''int''\<rparr>],
                 ft_results = Some [\<lparr>field_names = [''r''], field_type = Ident ''int''\<rparr>]\<rparr>\<rparr>"

definition sample_add42_fd :: func_decl where
  "sample_add42_fd = sample_add4_fd\<lparr>fd_name := ''Add42''\<rparr>"

text \<open>A method declaration, \<open>func (r *Foo) M(x int) int\<close>.\<close>

definition sample_method_fd :: func_decl where
  "sample_method_fd =
     \<lparr>fd_recv = Some [\<lparr>field_names = [''r''], field_type = StarExpr (Ident ''Foo'')\<rparr>], fd_name = ''M'',
      fd_type = \<lparr>ft_params = [\<lparr>field_names = [''x''], field_type = Ident ''int''\<rparr>],
                 ft_results = Some [\<lparr>field_names = [], field_type = Ident ''int''\<rparr>]\<rparr>\<rparr>"

section \<open>Lemmas shared by the cross-component properties\<close>

lemma foldl_scaffold_objects:
  "ob \<in> set (foldl declare_top os (map scaffold_decl ns)) \<Longrightarrow>
   ob \<in> set os \<or> (\<exists>nm\<in>set ns. ob = \<lparr>obj_kind = Fun, obj_name = ''Test'' @ nm,
                                  obj_decl = FuncDeclNode (scaffold_fd nm), obj_pos_valid = True\<rparr>)"
proof (induction ns arbitrary: os)
  case Nil
  then show ?case by simp
next
  case (Cons nm ns)
  from Cons.prems have "ob \<in> set (foldl declare_top (declare_top os (scaffold_decl nm)) (map scaffold_decl ns))"
    by simp
  then have "ob \<in> set (declare_top os (scaffold_decl nm)) \<or>
             (\<exists>nm\<in>set ns. ob = \<lparr>obj_kind = Fun, obj_name = ''Test'' @ nm,
                                  obj_decl = FuncDeclNode (scaffold_fd nm), obj_pos_valid = True\<rparr>)"
    by (rule Cons.IH)
  moreover have "set (declare_top os (scaffold_decl nm)) \<subseteq>
      insert \<lparr>obj_kind = Fun, obj_name = ''Test'' @ nm,
              obj_decl = FuncDeclNode (scaffold_fd nm), obj_pos_valid = True\<rparr> (set os)"
    using set_scope_insert by (auto simp: scaffold_decl_def scaffold_fd_def)
  ultimately show ?case by auto
qed

lemma scaffold_scope_objects:
  "ob \<in> set (resolve_scope (map scaffold_decl ns)) \<Longrightarrow>
   \<exists>nm. ob = \<lparr>obj_kind = Fun, obj_name = ''Test'' @ nm,
              obj_decl = FuncDeclNode (scaffold_fd nm), obj_pos_valid = True\<rparr>"
  unfolding resolve_scope_def by (drule foldl_scaffold_objects) auto

lemma scaffold_object_verdict:
  "ob \<in> set (resolve_scope (map scaffold_decl ns)) \<Longrightarrow>
   classify flt pkg ob \<in> {Unmatched, HasTest, NoResults}"
  by (drule scaffold_scope_objects) (auto simp: classify_def scaffold_fd_def)

lemma names_scope_insert:
  "set (map obj_name (scope_insert os ob)) =
     (if obj_name ob = ''_'' then set (map obj_name os) else insert (obj_name ob) (set (map obj_name os)))"
  by (auto simp: scope_insert_def)

lemma names_foldl_scaffold:
  "set (map obj_name (foldl declare_top os (map scaffold_decl ns))) =
   set (map obj_name os) \<union> (\<lambda>nm. ''Test'' @ nm) ` set ns"
proof (induction ns arbitrary: os)
  case Nil
  then show ?case by simp
next
  case (Cons nm ns)
  have "set (map obj_name (declare_top os (scaffold_decl nm))) = insert (''Test'' @ nm) (set (map obj_name os))"
    by (simp add: scaffold_decl_def scaffold_fd_def names_scope_insert del: set_map)
  with Cons.IH show ?case by auto
qed

lemma Test_name_in_generated:
  assumes "nm \<in> set ns"
  shows "\<exists>ob\<in>set (resolve_scope (map scaffold_decl ns)). obj_name ob = ''Test'' @ nm"
proof -
  from assms have "''Test'' @ nm \<in> obj_name ` set (resolve_scope (map scaffold_decl ns))"
    using names_foldl_scaffold [of "[]" ns] by (simp add: resolve_scope_def)
  then show ?thesis by (force simp: image_iff)
qed

lemma classify_Candidate_mono:
  assumes "classify flt pkg' ob = Candidate fd"
    and "\<And>nm. package_contains pkg nm \<Longrightarrow> package_contains pkg' nm"
  shows "classify flt pkg ob = Candidate fd"
  using assms by (auto simp: classify_def split: if_splits)

lemma parse_dir_keeps:
  "\<forall>f\<in>set fs. has_suffix (file_name f) ''.go'' \<and> keep (file_name f) \<Longrightarrow> parse_dir keep fs = fs"
  by (simp add: parse_dir_def)

lemma scaffolded_member:
  assumes "f \<in> set (pkg_files pkg)" and "ob \<in> set (file_objects f)"
    and "classify flt pkg ob = Candidate fd"
  shows "fd_name fd \<in> set (scaffolded flt pkg)"
  using assms by (force simp: scaffolded_def)

lemma resolve_scope_fun_obj_ok:
  "list_all spec_kind_ok ds \<Longrightarrow> ob \<in> set (resolve_scope ds) \<Longrightarrow> fun_obj_ok ob"
  using foldl_declare_top_wf [OF scope_wf_Nil, of ds]
  by (auto simp: resolve_scope_def scope_wf_def list_all_iff)

lemma extract_decl_func':
  assumes "fd_recv fd = None" and "ft_results (fd_type fd) = Some rfs"
  shows "snd (extract_decl fd) = Inr (FuncDesc (func_of_decl fd))"
  using assms by (simp add: extract_decl_def func_of_decl_def split_beta)

section \<open>Cross-component properties\<close>

text \<open>
  C5: however the package mixes functions and methods, every object the parser puts
  into a file scope that passes the guards is a function without receiver, so the
  extraction always builds a \<open>Func\<close>: the method branch of the driver and the
  method template are never reached, contrary to the spec's receiver handling.
\<close>

theorem methods_never_scaffolded:
  assumes "list_all spec_kind_ok ds" and "ob \<in> set (resolve_scope ds)"
    and "classify flt pkg ob = Candidate fd"
  shows "snd (extract_decl fd) = Inr (FuncDesc (func_of_decl fd))"
proof -
  from assms(1,2) have ok: "fun_obj_ok ob" by (rule resolve_scope_fun_obj_ok)
  from ok assms(3) have "fd_recv fd = None" by (rule classify_Candidate_no_recv)
  moreover from assms(3) obtain rfs where "ft_results (fd_type fd) = Some rfs"
    using classify_Candidate_results by blast
  ultimately show ?thesis by (rule extract_decl_func')
qed

theorem methods_never_scaffolded_witness:
  "resolve_scope [FuncTop sample_method_fd, FuncTop sample_add_fd] = [sample_add_obj] \<and>
   classify (\<lambda>_. True) \<lparr>pkg_name = ''main'', pkg_files = [\<lparr>file_name = ''a.go'', file_objects = [sample_add_obj]\<rparr>]\<rparr>
     sample_add_obj = Candidate sample_add_fd \<and>
   snd (extract_decl sample_add_fd) = Inr (FuncDesc (func_of_decl sample_add_fd))"
proof -
  have r: "resolve_scope [FuncTop sample_method_fd, FuncTop sample_add_fd] = [sample_add_obj]"
    by (simp add: resolve_scope_def sample_method_fd_def sample_add_fd_def sample_add_obj_def scope_insert_def)
  have c: "classify (\<lambda>_. True) \<lparr>pkg_name = ''main'', pkg_files = [\<lparr>file_name = ''a.go'', file_objects = [sample_add_obj]\<rparr>]\<rparr>
     sample_add_obj = Candidate sample_add_fd"
    by (simp add: classify_def package_contains_def sample_add_obj_def sample_add_fd_def)
  have "list_all spec_kind_ok [FuncTop sample_method_fd, FuncTop sample_add_fd]"
    by (simp add: spec_kind_ok_def)
  moreover have "sample_add_obj \<in> set (resolve_scope [FuncTop sample_method_fd, FuncTop sample_add_fd])"
    using r by simp
  ultimately show ?thesis using r c methods_never_scaffolded by blast
qed

lemma gen_object_unchanged:
  "classify flt pkg ob \<in> {NotFunc, Unmatched, HasTest, NoParams, NoResults} \<Longrightarrow>
   gen_object flt dst pkg w ob = Inr w"
  by (auto simp: gen_object_def)

lemma gen_objects_unchanged:
  "\<forall>ob\<in>set obs. gen_object flt dst pkg w ob = Inr w \<Longrightarrow> gen_objects flt dst pkg w obs = Inr w"
  by (induction obs) simp_all

text \<open>
  C16: the generated test functions are never scaffolded themselves: scanning the scope
  of a file of scaffolds changes neither standard output nor the output file, whatever
  the filter, because a \<open>Test<Name>(t *testing.T)\<close> declaration has no result.
\<close>

theorem scaffold_file_inert:
  "gen_objects flt dst pkg w (resolve_scope (map scaffold_decl ns)) = Inr w"
proof (rule gen_objects_unchanged, rule ballI)
  fix ob
  assume "ob \<in> set (resolve_scope (map scaffold_decl ns))"
  then have "classify flt pkg ob \<in> {Unmatched, HasTest, NoResults}"
    by (rule scaffold_object_verdict)
  then show "gen_object flt dst pkg w ob = Inr w"
    by (intro gen_object_unchanged) auto
qed

text \<open>
  C15: running the generator a second time, after its output was appended to a
  \<open>.go\<close> file that \<open>filesToIgnore\<close> keeps in the package directory, scaffolds
  nothing: every function scaffolded the first time now has its \<open>Test<Name>\<close>, no
  other function became eligible, and the generated tests are not eligible.
\<close>

theorem second_run_idempotent:
  assumes out: "has_suffix outname ''.go''" "files_to_ignore outname"
    and wf: "pkgs_wf [pkg]"
    and parsed: "\<forall>f\<in>set (pkg_files pkg). has_suffix (file_name f) ''.go'' \<and> files_to_ignore (file_name f)"
  shows "expected_run flt [second_run_pkg flt pkg outname] = []"
proof -
  let ?g = "generated_file flt pkg outname"
  let ?pkg' = "second_run_pkg flt pkg outname"
  have files: "pkg_files ?pkg' = pkg_files pkg @ [?g]"
    using out parsed by (simp add: second_run_pkg_def parse_dir_keeps generated_file_def)
  have sub: "package_contains pkg nm \<Longrightarrow> package_contains ?pkg' nm" for nm
    using files by (auto simp: package_contains_iff)
  have old: "expected_scaffold flt ?pkg' ob = []"
    if f: "f \<in> set (pkg_files pkg)" and ob: "ob \<in> set (file_objects f)" for f ob
  proof (cases "classify flt ?pkg' ob")
    case (Candidate fd)
    then have c: "classify flt pkg ob = Candidate fd" using sub by (rule classify_Candidate_mono)
    from wf f ob have ok: "fun_obj_ok ob" by (simp add: pkgs_wf_def list_all_iff)
    from ok c have "fd_name fd = obj_name ob" by (rule classify_Candidate_name)
    with scaffolded_member [OF f ob c] obtain ob' where
      "ob' \<in> set (file_objects ?g)" "obj_name ob' = ''Test'' @ obj_name ob"
      using Test_name_in_generated by (fastforce simp: generated_file_def)
    then have "package_contains ?pkg' (''Test'' @ obj_name ob)"
      using files by (auto simp: package_contains_iff)
    with Candidate show ?thesis by (simp add: classify_def split: if_splits)
  qed (simp_all add: expected_scaffold_def)
  have new: "expected_scaffold flt ?pkg' ob = []" if "ob \<in> set (file_objects ?g)" for ob
  proof -
    have "classify flt ?pkg' ob \<in> {Unmatched, HasTest, NoResults}"
      using that by (intro scaffold_object_verdict) (simp add: generated_file_def)
    then show ?thesis by (auto simp: expected_scaffold_def)
  qed
  show ?thesis
    using old new files by (simp add: expected_run_def expected_output_def)
qed

lemma sample_pkg_expected:
  "expected_run (\<lambda>_. True) [sample_pkg] = render (FuncDesc (func_of_decl sample_add_fd))"
  by (simp add: expected_run_def expected_output_def expected_scaffold_def sample_pkg_def
      sample_add_obj_def sample_add_fd_def classify_def package_contains_def)

theorem second_run_idempotent_witness:
  "expected_run (\<lambda>_. True) [sample_pkg] \<noteq> [] \<and>
   expected_run (\<lambda>_. True) [second_run_pkg (\<lambda>_. True) sample_pkg ''gen.go''] = []"
proof -
  have "has_suffix ''gen.go'' ''.go''" and "files_to_ignore ''gen.go''"
    by (simp_all add: has_suffix_def files_to_ignore_def)
  moreover have "pkgs_wf [sample_pkg]"
    by (simp add: pkgs_wf_def sample_pkg_def sample_add_obj_def sample_add_fd_def fun_obj_ok_def)
  moreover have "\<forall>f\<in>set (pkg_files sample_pkg). has_suffix (file_name f) ''.go'' \<and> files_to_ignore (file_name f)"
    by (simp add: sample_pkg_def has_suffix_def files_to_ignore_def)
  ultimately have "expected_run (\<lambda>_. True) [second_run_pkg (\<lambda>_. True) sample_pkg ''gen.go''] = []"
    by (rule second_run_idempotent)
  moreover have "render (FuncDesc (func_of_decl sample_add_fd)) \<noteq> []"
    by (simp add: render_FuncDesc scaffold_text_def scaffold_head_def)
  ultimately show ?thesis by (simp add: sample_pkg_expected)
qed

text \<open>
  C19: when the output is appended to a \<open>_test.go\<close> file, the second run's
  \<open>ParseDir\<close> skips it (\<open>filesToIgnore\<close>), so the second run scaffolds everything
  again and the file gets a second \<open>Test<Name>\<close> for every function.
\<close>

theorem second_run_test_file_rescaffolds:
  assumes "has_suffix outname ''_test.go''"
    and "\<forall>f\<in>set (pkg_files pkg). has_suffix (file_name f) ''.go'' \<and> files_to_ignore (file_name f)"
  shows "expected_run flt [second_run_pkg flt pkg outname] = expected_run flt [pkg]"
proof -
  from assms(1) have "\<not> files_to_ignore outname" by (simp add: files_to_ignore_def)
  with assms(2) have "second_run_pkg flt pkg outname = pkg"
    by (simp add: second_run_pkg_def parse_dir_def generated_file_def)
  then show ?thesis by simp
qed

theorem second_run_test_file_rescaffolds_witness:
  "expected_run (\<lambda>_. True) [second_run_pkg (\<lambda>_. True) sample_pkg ''add_test.go''] =
   render (FuncDesc (func_of_decl sample_add_fd))"
proof -
  have "has_suffix ''add_test.go'' ''_test.go''" by (simp add: has_suffix_def)
  moreover have "\<forall>f\<in>set (pkg_files sample_pkg). has_suffix (file_name f) ''.go'' \<and> files_to_ignore (file_name f)"
    by (simp add: sample_pkg_def has_suffix_def files_to_ignore_def)
  ultimately have "expected_run (\<lambda>_. True) [second_run_pkg (\<lambda>_. True) sample_pkg ''add_test.go''] =
                   expected_run (\<lambda>_. True) [sample_pkg]"
    by (rule second_run_test_file_rescaffolds)
  then show ?thesis by (simp add: sample_pkg_expected)
qed

text \<open>
  Model validation: the renderer reproduces the scaffolds checked into \<open>src/tests_test.go\<close>:
  \<open>func Add(x, y int) int\<close> gives \<open>TestAdd\<close> (its unnamed result becomes the field
  \<open>int int\<close>), and likewise \<open>TestAdd2\<close>, \<open>TestAdd3\<close>, \<open>TestAdd4\<close> and
  \<open>TestAdd42\<close> from the signatures they imply: all five scaffolds of the file, each
  preceded by the template's leading newline (the file lacks the last one's final newline).
\<close>

theorem render_matches_tests_test:
  "render (FuncDesc (func_of_decl sample_add_fd)) = NL @ golden_TestAdd \<and>
   render (FuncDesc (func_of_decl sample_add2_fd)) = NL @ golden_TestAdd2 \<and>
   render (FuncDesc (func_of_decl sample_add3_fd)) = NL @ golden_TestAdd3 \<and>
   render (FuncDesc (func_of_decl sample_add4_fd)) = NL @ golden_TestAdd4 \<and>
   render (FuncDesc (func_of_decl sample_add42_fd)) = NL @ golden_TestAdd42 @ NL"
  by (simp add: render_FuncDesc scaffold_text_def scaffold_head_def struct_text_def call_text_def
      scaffold_middle_def scaffold_tail_def func_of_decl_def sample_add_fd_def sample_add2_fd_def
      sample_add3_fd_def sample_add4_fd_def sample_add42_fd_def golden_TestAdd_def golden_TestAdd2_def
      golden_TestAdd3_def golden_TestAdd4_def golden_TestAdd42_def gen_simps)

end
